theory Spec2Isabelle
  imports Complex_Main
begin

section \<open>Python values\<close>

text \<open>
  The values that occur in a decoded JSON payload and in a unified record. A scalar is
  what one column of the SQLite table holds; a list or a mapping only occurs inside a
  raw listing. Floats are carried as the rational they denote: the code under study
  never computes with them. Strings are lists of characters with ASCII case and
  whitespace. A mapping is an association list whose keys are distinct, as a decoded
  JSON object is.
\<close>

datatype scalar = SNone | SBool bool | SInt int | SFloat rat | SStr string

datatype pyval = Scalar scalar | PList "pyval list" | PDict "(string \<times> pyval) list"

abbreviation PNone :: pyval where
  "PNone \<equiv> Scalar SNone"

abbreviation PBool :: "bool \<Rightarrow> pyval" where
  "PBool b \<equiv> Scalar (SBool b)"

abbreviation PInt :: "int \<Rightarrow> pyval" where
  "PInt n \<equiv> Scalar (SInt n)"

abbreviation PFloat :: "rat \<Rightarrow> pyval" where
  "PFloat x \<equiv> Scalar (SFloat x)"

abbreviation PStr :: "string \<Rightarrow> pyval" where
  "PStr s \<equiv> Scalar (SStr s)"

type_synonym py_dict = "(string \<times> pyval) list"

datatype py_error = AttributeError | TypeError | KeyError | IndexError | ValueError

text \<open>Truth value testing (\<^verbatim>\<open>if not x\<close>, \<^verbatim>\<open>x or y\<close>).\<close>

fun scalar_truthy :: "scalar \<Rightarrow> bool" where
  "scalar_truthy SNone = False"
| "scalar_truthy (SBool b) = b"
| "scalar_truthy (SInt n) = (n \<noteq> 0)"
| "scalar_truthy (SFloat x) = (x \<noteq> 0)"
| "scalar_truthy (SStr s) = (s \<noteq> [])"

fun truthy :: "pyval \<Rightarrow> bool" where
  "truthy (Scalar s) = scalar_truthy s"
| "truthy (PList xs) = (xs \<noteq> [])"
| "truthy (PDict kvs) = (kvs \<noteq> [])"

definition py_or :: "pyval \<Rightarrow> pyval \<Rightarrow> pyval" where
  "py_or a b = (if truthy a then a else b)"

text \<open>Sequencing of computations that may raise: the first exception wins.\<close>

definition py_bind :: "py_error + 'a \<Rightarrow> ('a \<Rightarrow> py_error + 'b) \<Rightarrow> py_error + 'b" where
  "py_bind m f = (case m of Inl e \<Rightarrow> Inl e | Inr v \<Rightarrow> f v)"

text \<open>\<^verbatim>\<open>a or <expr>\<close> where the right operand may raise: it is only evaluated when
  \<^verbatim>\<open>a\<close> is falsy.\<close>

definition or_else :: "pyval \<Rightarrow> py_error + pyval \<Rightarrow> py_error + pyval" where
  "or_else a m = (if truthy a then Inr a else m)"

text \<open>\<^verbatim>\<open>d.get(k)\<close> on a mapping: the value, or None when the key is missing.\<close>

definition dict_get :: "py_dict \<Rightarrow> string \<Rightarrow> pyval" where
  "dict_get d k = (case map_of d k of None \<Rightarrow> PNone | Some v \<Rightarrow> v)"

text \<open>The receiver of \<^verbatim>\<open>.get\<close> has to be a mapping: a string, a number or a list has no
  such attribute and the call raises AttributeError.\<close>

definition as_dict :: "pyval \<Rightarrow> py_error + py_dict" where
  "as_dict v = (case v of PDict d \<Rightarrow> Inr d | _ \<Rightarrow> Inl AttributeError)"

definition attr_get :: "pyval \<Rightarrow> string \<Rightarrow> py_error + pyval" where
  "attr_get v k = py_bind (as_dict v) (\<lambda>d. Inr (dict_get d k))"

text \<open>\<^verbatim>\<open>len(x)\<close>: defined on lists, strings and mappings, TypeError on the rest.\<close>

fun py_len :: "pyval \<Rightarrow> py_error + nat" where
  "py_len (PList xs) = Inr (length xs)"
| "py_len (PDict kvs) = Inr (length kvs)"
| "py_len (Scalar (SStr s)) = Inr (length s)"
| "py_len (Scalar _) = Inl TypeError"

text \<open>\<^verbatim>\<open>x[i]\<close> for a literal index \<^verbatim>\<open>i\<close> (0 or 1 in the source): an element of a list, a
  one-character string of a string, KeyError on a mapping (its keys are strings),
  TypeError on a value that cannot be subscripted.\<close>

fun py_index :: "pyval \<Rightarrow> nat \<Rightarrow> py_error + pyval" where
  "py_index (PList xs) i = (if i < length xs then Inr (xs ! i) else Inl IndexError)"
| "py_index (Scalar (SStr s)) i = (if i < length s then Inr (PStr [s ! i]) else Inl IndexError)"
| "py_index (PDict kvs) i = Inl KeyError"
| "py_index (Scalar _) i = Inl TypeError"

text \<open>\<^verbatim>\<open>str.strip()\<close> and \<^verbatim>\<open>str.lower()\<close> on ASCII text.\<close>

definition is_space :: "char \<Rightarrow> bool" where
  "is_space c = (let n = (of_char c :: nat) in (9 \<le> n \<and> n \<le> 13) \<or> (28 \<le> n \<and> n \<le> 32))"

definition py_strip :: "string \<Rightarrow> string" where
  "py_strip s = rev (dropWhile is_space (rev (dropWhile is_space s)))"

definition lower_char :: "char \<Rightarrow> char" where
  "lower_char c = (let n = (of_char c :: nat) in if 65 \<le> n \<and> n \<le> 90 then char_of (n + 32) else c)"

definition py_lower :: "string \<Rightarrow> string" where
  "py_lower s = map lower_char s"

text \<open>\<^verbatim>\<open>str(n)\<close> of an integer: its decimal digits.\<close>

function str_nat :: "nat \<Rightarrow> string" where
  "str_nat n = (if n < 10 then [char_of (48 + n)] else str_nat (n div 10) @ [char_of (48 + n mod 10)])"
  by pat_completeness auto
termination
  by (relation "measure id") auto

definition py_str_int :: "int \<Rightarrow> string" where
  "py_str_int i = (if i < 0 then CHR ''-'' # str_nat (nat (- i)) else str_nat (nat i))"

section \<open>The imported helpers\<close>

text \<open>
  The module imports \<^verbatim>\<open>PRIORITY\<close>, \<^verbatim>\<open>UNIFIED_COLUMNS\<close>, \<^verbatim>\<open>empty_record\<close>, \<^verbatim>\<open>to_bool\<close>,
  \<^verbatim>\<open>to_float\<close> and \<^verbatim>\<open>to_int\<close> from \<^verbatim>\<open>dataset_builder.merge_sqlite_datasets\<close>, which is
  not among the sources. The priority table and the column list are parameters of the
  functions below. The three coercions and \<^verbatim>\<open>json.dumps\<close> (its flag is
  \<^verbatim>\<open>ensure_ascii\<close>) are the fields of one record of helpers; a coercion returns a typed
  value or nothing and does not raise.
\<close>

record helpers =
  to_int :: "pyval \<Rightarrow> int option"
  to_float :: "pyval \<Rightarrow> rat option"
  to_bool :: "pyval \<Rightarrow> bool option"
  json_dumps :: "bool \<Rightarrow> pyval \<Rightarrow> string"

definition int_value :: "int option \<Rightarrow> pyval" where
  "int_value r = (case r of None \<Rightarrow> PNone | Some n \<Rightarrow> PInt n)"

definition float_value :: "rat option \<Rightarrow> pyval" where
  "float_value r = (case r of None \<Rightarrow> PNone | Some x \<Rightarrow> PFloat x)"

definition bool_value :: "bool option \<Rightarrow> pyval" where
  "bool_value r = (case r of None \<Rightarrow> PNone | Some b \<Rightarrow> PBool b)"

text \<open>
  Modelled from the spec: \<^verbatim>\<open>to_int\<close>, \<^verbatim>\<open>to_float\<close> and \<^verbatim>\<open>to_bool\<close> of the absent module
  \<^verbatim>\<open>dataset_builder.merge_sqlite_datasets\<close>. The spec: "attempt numeric parse; on failure
  or null input, return an unset value rather than failing", and for \<^verbatim>\<open>to_bool\<close>:
  "normalizes truthy/falsy textual and numeric representations to a strict boolean or
  unset value". The numeric parse and the table of recognised representations are
  parameters; the parse may raise.
\<close>

definition to_int_model :: "(pyval \<Rightarrow> py_error + int) \<Rightarrow> pyval \<Rightarrow> py_error + int option" where
  "to_int_model parse v =
     (if v = PNone then Inr None
      else case parse v of Inl e \<Rightarrow> Inr None | Inr n \<Rightarrow> Inr (Some n))"

definition to_float_model :: "(pyval \<Rightarrow> py_error + rat) \<Rightarrow> pyval \<Rightarrow> py_error + rat option" where
  "to_float_model parse v =
     (if v = PNone then Inr None
      else case parse v of Inl e \<Rightarrow> Inr None | Inr x \<Rightarrow> Inr (Some x))"

fun textual_or_numeric :: "pyval \<Rightarrow> bool" where
  "textual_or_numeric (Scalar (SStr s)) = True"
| "textual_or_numeric (Scalar (SInt n)) = True"
| "textual_or_numeric (Scalar (SFloat x)) = True"
| "textual_or_numeric v = False"

definition to_bool_model :: "(pyval \<Rightarrow> bool option) \<Rightarrow> pyval \<Rightarrow> py_error + bool option" where
  "to_bool_model recognise v =
     (case v of
        Scalar (SBool b) \<Rightarrow> Inr (Some b)
      | _ \<Rightarrow> if textual_or_numeric v then Inr (recognise v) else Inr None)"

section \<open>Unified records\<close>

text \<open>A record under construction is a Python dict from column names to values: a key
  can be missing, or present with the value None.\<close>

type_synonym py_record = "string \<rightharpoonup> pyval"

definition record_get :: "py_record \<Rightarrow> string \<Rightarrow> pyval" where
  "record_get r k = (case r k of None \<Rightarrow> PNone | Some v \<Rightarrow> v)"

text \<open>\<^verbatim>\<open>dict.setdefault(k, d)\<close> stores \<^verbatim>\<open>d\<close> only when the key is missing; a key that is
  present with the value None is left as it is.\<close>

definition setdefault :: "py_record \<Rightarrow> string \<Rightarrow> pyval \<Rightarrow> py_record" where
  "setdefault r k d = (case r k of None \<Rightarrow> r(k \<mapsto> d) | Some v \<Rightarrow> r)"

text \<open>\<^verbatim>\<open>record.setdefault(dst, record.get(src))\<close>.\<close>

definition backfill :: "py_record \<Rightarrow> string \<Rightarrow> string \<Rightarrow> py_record" where
  "backfill r dst src = setdefault r dst (record_get r src)"

definition dict_update :: "py_record \<Rightarrow> (string \<times> pyval) list \<Rightarrow> py_record" where
  "dict_update r kvs = fold (\<lambda>(k, v) m. m(k \<mapsto> v)) kvs r"

text \<open>
  Modelled from the spec: \<^verbatim>\<open>empty_record\<close> of the absent module
  \<^verbatim>\<open>dataset_builder.merge_sqlite_datasets\<close>. The spec: "\<^verbatim>\<open>empty_record()\<close> returns a record
  with all unified columns present and set to an unset value".
\<close>

definition empty_record :: "string list \<Rightarrow> py_record" where
  "empty_record UNIFIED_COLUMNS = map_of (map (\<lambda>c. (c, PNone)) UNIFIED_COLUMNS)"

section \<open>UnifiedWriter.upsert\<close>

text \<open>
  Modelled from the spec: the table \<^verbatim>\<open>unified_vehicle_listings\<close>, whose schema file
  \<^verbatim>\<open>unified_schema.sql\<close> is not among the sources. The spec: "one row per VIN (VIN is the
  natural key / uniqueness constraint)", with exactly the unified columns. The table is a
  finite map from the VIN to the row, and a row lists the values of the unified columns
  in their order. A record handed to \<^verbatim>\<open>upsert\<close> maps column names to scalars, the values
  a column can hold; what the database driver does with other values is outside the
  model.
\<close>

type_synonym unified_record = "string \<rightharpoonup> scalar"

type_synonym row = "(string \<times> scalar) list"

type_synonym connection = "scalar \<rightharpoonup> row"

definition get_or :: "('k \<rightharpoonup> 'v) \<Rightarrow> 'k \<Rightarrow> 'v \<Rightarrow> 'v" where
  "get_or d k dflt = (case d k of None \<Rightarrow> dflt | Some v \<Rightarrow> v)"

text \<open>\<^verbatim>\<open>PRIORITY.get(s, 0)\<close>: the table is keyed by source names, so a value that is not
  a string is not a key of it.\<close>

definition priority_get :: "(string \<rightharpoonup> int) \<Rightarrow> scalar \<Rightarrow> int" where
  "priority_get PRIORITY s = (case s of SStr name \<Rightarrow> get_or PRIORITY name 0 | _ \<Rightarrow> 0)"

definition column :: "row \<Rightarrow> string \<Rightarrow> scalar" where
  "column r c = get_or (map_of r) c SNone"

text \<open>\<^verbatim>\<open>SELECT source FROM unified_vehicle_listings WHERE vin = ?\<close>, then \<^verbatim>\<open>fetchone()\<close>.\<close>

definition select_source :: "connection \<Rightarrow> scalar \<Rightarrow> scalar option" where
  "select_source conn vin = map_option (\<lambda>r. column r ''source'') (conn vin)"

text \<open>\<^verbatim>\<open>INSERT OR REPLACE\<close> of one row: the row that has the same key, if any, is deleted
  and the new one is stored.\<close>

definition insert_or_replace :: "string list \<Rightarrow> connection \<Rightarrow> scalar list \<Rightarrow> connection" where
  "insert_or_replace UNIFIED_COLUMNS conn vals =
     (let r = zip UNIFIED_COLUMNS vals in conn(column r ''vin'' \<mapsto> r))"

definition upsert ::
  "(string \<rightharpoonup> int) \<Rightarrow> string list \<Rightarrow> connection \<Rightarrow> unified_record \<Rightarrow> bool \<times> connection" where
  "upsert PRIORITY UNIFIED_COLUMNS conn record =
     (let vin = get_or record ''vin'' SNone in
      if \<not> scalar_truthy vin then (False, conn)
      else
        let source = get_or record ''source'' SNone in
        if \<not> scalar_truthy source then (False, conn)
        else
          let existing = select_source conn vin;
              vals = map (\<lambda>c. get_or record c SNone) UNIFIED_COLUMNS
          in case existing of
               None \<Rightarrow> (True, insert_or_replace UNIFIED_COLUMNS conn vals)
             | Some existing_source \<Rightarrow>
                 if priority_get PRIORITY existing_source > priority_get PRIORITY source
                 then (False, conn)
                 else (True, insert_or_replace UNIFIED_COLUMNS conn vals))"

section \<open>normalize_autodev_listing\<close>

text \<open>
  The entries of the dict literal handed to \<^verbatim>\<open>record.update\<close>, in the order of the source.
  The entries that can raise are evaluated first, in their order; the others are total,
  so the first exception is the one the source raises. \<^verbatim>\<open>vehicle\<close> and \<^verbatim>\<open>retail\<close> are
  mappings here: their first \<^verbatim>\<open>.get\<close> has succeeded before the literal is reached.
\<close>

definition autodev_fields ::
  "helpers \<Rightarrow> py_dict \<Rightarrow> py_dict \<Rightarrow> py_dict \<Rightarrow> pyval \<Rightarrow> pyval \<Rightarrow> pyval \<Rightarrow> pyval \<Rightarrow> string
     \<Rightarrow> py_error + (string \<times> pyval) list" where
  "autodev_fields H listing vehicle retail dealer_details location photos vin fetched_at =
     py_bind (or_else (dict_get retail ''dealer'') (attr_get dealer_details ''name'')) (\<lambda>dealer_name.
     py_bind (or_else (dict_get retail ''city'') (attr_get dealer_details ''city'')) (\<lambda>dealer_city.
     py_bind (or_else (dict_get retail ''state'') (attr_get dealer_details ''state'')) (\<lambda>dealer_state.
     py_bind (or_else (dict_get retail ''zip'') (attr_get dealer_details ''zip'')) (\<lambda>dealer_zip.
     py_bind (or_else (dict_get retail ''phone'') (attr_get dealer_details ''phone'')) (\<lambda>dealer_phone.
     py_bind (py_bind (py_len location) (\<lambda>n.
                if n > 1 then py_index location 1 else attr_get dealer_details ''latitude'')) (\<lambda>latitude.
     py_bind (if truthy location then py_index location 0
              else attr_get dealer_details ''longitude'') (\<lambda>longitude.
     py_bind (or_else (dict_get retail ''primaryImage'')
                (if truthy photos then py_index photos 0 else Inr PNone)) (\<lambda>primary_image.
     py_bind (or_else (int_value (to_int H (dict_get retail ''photoCount'')))
                (if truthy photos then py_bind (py_len photos) (\<lambda>n. Inr (PInt (int n)))
                 else Inr PNone)) (\<lambda>photo_count.
     Inr
      [(''vin'', vin),
       (''listing_id'', py_or (dict_get listing ''id'') (dict_get listing ''listingId'')),
       (''heading'', py_or (dict_get retail ''title'') (dict_get vehicle ''model'')),
       (''source'', PStr ''autodev''),
       (''price'', int_value (to_int H (dict_get retail ''price''))),
       (''mileage'', int_value (to_int H (dict_get retail ''miles''))),
       (''msrp'', int_value (to_int H (dict_get retail ''msrp''))),
       (''listing_created_at'', dict_get listing ''createdAt''),
       (''online'', bool_value (to_bool H (dict_get listing ''online''))),
       (''data_fetched_at'', PStr fetched_at),
       (''year'', int_value (to_int H (dict_get vehicle ''year''))),
       (''make'', dict_get vehicle ''make''),
       (''model'', dict_get vehicle ''model''),
       (''trim'', dict_get vehicle ''trim''),
       (''body_style'', dict_get vehicle ''bodyStyle''),
       (''drivetrain'', dict_get vehicle ''drivetrain''),
       (''engine'', dict_get vehicle ''engine''),
       (''fuel_type'', dict_get vehicle ''fuel''),
       (''transmission'', dict_get vehicle ''transmission''),
       (''doors'', int_value (to_int H (dict_get vehicle ''doors''))),
       (''seats'', int_value (to_int H (dict_get vehicle ''seats''))),
       (''exterior_color'', dict_get vehicle ''exteriorColor''),
       (''interior_color'', dict_get vehicle ''interiorColor''),
       (''inventory_type'',
          if dict_get retail ''used'' = PBool True then PStr ''used''
          else if dict_get retail ''used'' = PBool False then PStr ''new'' else PNone),
       (''is_used'', bool_value (to_bool H (dict_get retail ''used''))),
       (''is_cpo'', bool_value (to_bool H (dict_get retail ''cpo''))),
       (''is_certified'', bool_value (to_bool H (dict_get retail ''cpo''))),
       (''stock_number'', dict_get retail ''stockNumber''),
       (''dealer_name'', dealer_name),
       (''dealer_city'', dealer_city),
       (''dealer_state'', dealer_state),
       (''dealer_zip'', dealer_zip),
       (''dealer_phone'', dealer_phone),
       (''dealer_latitude'', float_value (to_float H latitude)),
       (''dealer_longitude'', float_value (to_float H longitude)),
       (''primary_image_url'', primary_image),
       (''photo_count'', photo_count),
       (''vdp_url'', dict_get retail ''vdp''),
       (''carfax_url'', dict_get retail ''carfaxUrl''),
       (''dealer_json'',
          if truthy dealer_details then PStr (json_dumps H True dealer_details) else PNone),
       (''build_json'',
          if vehicle \<noteq> [] then PStr (json_dumps H True (PDict vehicle)) else PNone),
       (''data_source'', PStr ''autodev''),
       (''carfax_one_owner'', bool_value (to_bool H (dict_get retail ''carfaxOneOwner''))),
       (''carfax_clean_title'', bool_value (to_bool H (dict_get retail ''carfaxCleanTitle''))),
       (''raw_json'', PStr (json_dumps H False (PDict listing)))])))))))))"

text \<open>The \<^verbatim>\<open>setdefault\<close> calls that close the function. \<^verbatim>\<open>seats\<close> is the result of
  \<^verbatim>\<open>to_int\<close>: an integer or None.\<close>

definition backfill_seating :: "py_record \<Rightarrow> py_record" where
  "backfill_seating r =
     (case record_get r ''seats'' of
        Scalar (SInt seats) \<Rightarrow> setdefault r ''build_std_seating'' (PStr (py_str_int seats))
      | _ \<Rightarrow> r)"

definition autodev_backfill :: "py_record \<Rightarrow> py_record" where
  "autodev_backfill r0 =
     (let r1 = backfill r0 ''build_year'' ''year'';
          r2 = backfill r1 ''build_make'' ''make'';
          r3 = backfill r2 ''build_model'' ''model'';
          r4 = backfill r3 ''build_trim'' ''trim'';
          r5 = backfill r4 ''build_body_type'' ''body_style'';
          r6 = backfill r5 ''build_fuel_type'' ''fuel_type'';
          r7 = backfill r6 ''build_transmission'' ''transmission'';
          r8 = backfill r7 ''build_drivetrain'' ''drivetrain'';
          r9 = backfill r8 ''build_engine'' ''engine'';
          r10 = backfill r9 ''build_doors'' ''doors''
      in backfill_seating r10)"

definition normalize_autodev_listing ::
  "helpers \<Rightarrow> string list \<Rightarrow> py_dict \<Rightarrow> string \<Rightarrow> py_error + py_record option" where
  "normalize_autodev_listing H UNIFIED_COLUMNS listing fetched_at =
     (let vehicle = py_or (dict_get listing ''vehicle'') (PDict []);
          retail = py_or (dict_get listing ''retailListing'') (PDict [])
      in py_bind (as_dict retail) (\<lambda>retail.
           let dealer_details = py_or (dict_get retail ''dealerDetails'') (PDict []);
               location = py_or (dict_get listing ''location'') (PList []);
               photos = py_or (dict_get retail ''photos'') (PList [])
           in py_bind (as_dict vehicle) (\<lambda>vehicle.
                let vin = dict_get vehicle ''vin'' in
                if \<not> truthy vin then Inr None
                else
                  py_bind (autodev_fields H listing vehicle retail dealer_details location
                             photos vin fetched_at) (\<lambda>entries.
                    let record = dict_update (empty_record UNIFIED_COLUMNS) entries;
                        record =
                          (if truthy photos
                           then record(''media_json'' \<mapsto>
                                  PStr (json_dumps H False (PDict [(''photos'', photos)])))
                           else record)
                    in Inr (Some (autodev_backfill record))))))"

section \<open>normalize_marketcheck_listing\<close>

text \<open>\<^verbatim>\<open>is_used\<close>, from the \<^verbatim>\<open>inventory_type\<close> token.\<close>

definition marketcheck_is_used :: "pyval \<Rightarrow> pyval" where
  "marketcheck_is_used inventory_type =
     (case inventory_type of
        Scalar (SStr s) \<Rightarrow>
          (let normalized = py_lower (py_strip s) in
           if normalized = ''used'' then PInt 1
           else if normalized = ''new'' then PInt 0
           else PNone)
      | _ \<Rightarrow> PNone)"

text \<open>The first dict literal; \<^verbatim>\<open>dealer\<close> and \<^verbatim>\<open>media\<close> are mappings here.\<close>

definition marketcheck_fields ::
  "helpers \<Rightarrow> py_dict \<Rightarrow> pyval \<Rightarrow> py_dict \<Rightarrow> pyval \<Rightarrow> pyval \<Rightarrow> pyval \<Rightarrow> py_dict
     \<Rightarrow> pyval \<Rightarrow> pyval \<Rightarrow> pyval \<Rightarrow> string \<Rightarrow> (string \<times> pyval) list" where
  "marketcheck_fields H listing build dealer mc_dealership financing leasing media
       primary_image photo_count vin fetched_at =
      [(''vin'', vin),
       (''listing_id'', dict_get listing ''id''),
       (''heading'', dict_get listing ''heading''),
       (''source'', PStr ''marketcheck''),
       (''price'', int_value (to_int H (dict_get listing ''price''))),
       (''mileage'', int_value (to_int H (dict_get listing ''miles''))),
       (''msrp'', int_value (to_int H (dict_get listing ''msrp''))),
       (''ref_price'', int_value (to_int H (dict_get listing ''ref_price''))),
       (''price_change_percent'', float_value (to_float H (dict_get listing ''price_change_percent''))),
       (''ref_price_dt'', int_value (to_int H (dict_get listing ''ref_price_dt''))),
       (''ref_miles'', int_value (to_int H (dict_get listing ''ref_miles''))),
       (''ref_miles_dt'', int_value (to_int H (dict_get listing ''ref_miles_dt''))),
       (''first_seen_at'', int_value (to_int H (dict_get listing ''first_seen_at''))),
       (''first_seen_at_date'', dict_get listing ''first_seen_at_date''),
       (''first_seen_at_source'', int_value (to_int H (dict_get listing ''first_seen_at_source''))),
       (''first_seen_at_source_date'', dict_get listing ''first_seen_at_source_date''),
       (''first_seen_at_mc'', int_value (to_int H (dict_get listing ''first_seen_at_mc''))),
       (''first_seen_at_mc_date'', dict_get listing ''first_seen_at_mc_date''),
       (''last_seen_at'', int_value (to_int H (dict_get listing ''last_seen_at''))),
       (''last_seen_at_date'', dict_get listing ''last_seen_at_date''),
       (''scraped_at'', int_value (to_int H (dict_get listing ''scraped_at''))),
       (''scraped_at_date'', dict_get listing ''scraped_at_date''),
       (''data_fetched_at'', PStr fetched_at),
       (''exterior_color'', dict_get listing ''exterior_color''),
       (''interior_color'', dict_get listing ''interior_color''),
       (''base_ext_color'', dict_get listing ''base_ext_color''),
       (''base_int_color'', dict_get listing ''base_int_color''),
       (''dom'', int_value (to_int H (dict_get listing ''dom''))),
       (''dom_180'', int_value (to_int H (dict_get listing ''dom_180''))),
       (''dom_active'', int_value (to_int H (dict_get listing ''dom_active''))),
       (''dos_active'', int_value (to_int H (dict_get listing ''dos_active''))),
       (''seller_type'', dict_get listing ''seller_type''),
       (''inventory_type'', dict_get listing ''inventory_type''),
       (''availability_status'', dict_get listing ''availability_status''),
       (''is_certified'', bool_value (to_bool H (dict_get listing ''is_certified''))),
       (''is_cpo'', bool_value (to_bool H (dict_get listing ''is_certified''))),
       (''is_used'', marketcheck_is_used (dict_get listing ''inventory_type'')),
       (''in_transit'', bool_value (to_bool H (dict_get listing ''in_transit''))),
       (''model_code'', dict_get listing ''model_code''),
       (''stock_number'', dict_get listing ''stock_no''),
       (''dealer_name'', dict_get dealer ''name''),
       (''dealer_city'', dict_get dealer ''city''),
       (''dealer_state'', dict_get dealer ''state''),
       (''dealer_zip'', dict_get dealer ''zip''),
       (''dealer_phone'', dict_get dealer ''phone''),
       (''dealer_latitude'', float_value (to_float H (dict_get dealer ''latitude''))),
       (''dealer_longitude'', float_value (to_float H (dict_get dealer ''longitude''))),
       (''dealer_country'', dict_get dealer ''country''),
       (''dealer_type'', dict_get dealer ''dealer_type''),
       (''dealer_msa_code'', dict_get dealer ''msa_code''),
       (''dist'', float_value (to_float H (dict_get listing ''dist''))),
       (''vdp_url'', dict_get listing ''vdp_url''),
       (''carfax_one_owner'', bool_value (to_bool H (dict_get listing ''carfax_1_owner''))),
       (''carfax_clean_title'', bool_value (to_bool H (dict_get listing ''carfax_clean_title''))),
       (''primary_image_url'', primary_image),
       (''photo_count'', photo_count),
       (''financing_options_json'',
          if truthy financing then PStr (json_dumps H False financing) else PNone),
       (''leasing_options_json'',
          if truthy leasing then PStr (json_dumps H False leasing) else PNone),
       (''media_json'',
          if media \<noteq> [] then PStr (json_dumps H False (PDict media)) else PNone),
       (''dealer_json'',
          if dealer \<noteq> [] then PStr (json_dumps H False (PDict dealer)) else PNone),
       (''mc_dealership_json'',
          if truthy mc_dealership then PStr (json_dumps H False mc_dealership) else PNone),
       (''build_json'',
          if truthy build then PStr (json_dumps H False build) else PNone),
       (''data_source'', py_or (dict_get listing ''data_source'') (PStr ''marketcheck'')),
       (''raw_json'', PStr (json_dumps H False (PDict listing)))]"

text \<open>The second dict literal; \<^verbatim>\<open>build\<close> is a mapping here.\<close>

definition marketcheck_build_fields :: "helpers \<Rightarrow> py_dict \<Rightarrow> (string \<times> pyval) list" where
  "marketcheck_build_fields H build =
      [(''build_year'', int_value (to_int H (dict_get build ''year''))),
       (''build_make'', dict_get build ''make''),
       (''build_model'', dict_get build ''model''),
       (''build_trim'', dict_get build ''trim''),
       (''build_version'', dict_get build ''version''),
       (''build_body_type'', dict_get build ''body_type''),
       (''build_vehicle_type'', dict_get build ''vehicle_type''),
       (''build_transmission'', dict_get build ''transmission''),
       (''build_drivetrain'', dict_get build ''drivetrain''),
       (''build_fuel_type'', dict_get build ''fuel_type''),
       (''build_engine'', dict_get build ''engine''),
       (''build_doors'', int_value (to_int H (dict_get build ''doors''))),
       (''build_cylinders'', int_value (to_int H (dict_get build ''cylinders''))),
       (''build_std_seating'', dict_get build ''std_seating''),
       (''build_highway_mpg'', int_value (to_int H (dict_get build ''highway_mpg''))),
       (''build_city_mpg'', int_value (to_int H (dict_get build ''city_mpg'')))]"

definition marketcheck_backfill :: "py_record \<Rightarrow> py_record" where
  "marketcheck_backfill r0 =
     (let r1 = backfill r0 ''year'' ''build_year'';
          r2 = backfill r1 ''make'' ''build_make'';
          r3 = backfill r2 ''model'' ''build_model'';
          r4 = backfill r3 ''trim'' ''build_trim'';
          r5 = backfill r4 ''body_style'' ''build_body_type'';
          r6 = backfill r5 ''drivetrain'' ''build_drivetrain'';
          r7 = backfill r6 ''engine'' ''build_engine'';
          r8 = backfill r7 ''fuel_type'' ''build_fuel_type'';
          r9 = backfill r8 ''transmission'' ''build_transmission''
      in backfill r9 ''doors'' ''build_doors'')"

definition normalize_marketcheck_listing ::
  "helpers \<Rightarrow> string list \<Rightarrow> py_dict \<Rightarrow> string \<Rightarrow> py_error + py_record option" where
  "normalize_marketcheck_listing H UNIFIED_COLUMNS listing fetched_at =
     (let vin = dict_get listing ''vin'' in
      if \<not> truthy vin then Inr None
      else
        let build = py_or (dict_get listing ''build'') (PDict []);
            dealer = py_or (dict_get listing ''dealer'') (PDict []);
            mc_dealership = py_or (dict_get listing ''mc_dealership'') (PDict []);
            financing = py_or (dict_get listing ''financing_options'') (PDict []);
            leasing = py_or (dict_get listing ''leasing_options'') (PDict []);
            media = py_or (dict_get listing ''media'') (PDict [])
        in py_bind (as_dict media) (\<lambda>media.
             let photo_links = py_or (dict_get media ''photo_links'') (PList []) in
             py_bind (as_dict dealer) (\<lambda>dealer.
             py_bind (if truthy photo_links then py_index photo_links 0 else Inr PNone) (\<lambda>primary_image.
             py_bind (if truthy photo_links
                      then py_bind (py_len photo_links) (\<lambda>n. Inr (PInt (int n)))
                      else Inr (int_value (to_int H (dict_get listing ''photo_count'')))) (\<lambda>photo_count.
               let record = dict_update (empty_record UNIFIED_COLUMNS)
                              (marketcheck_fields H listing build dealer mc_dealership financing
                                 leasing media primary_image photo_count vin fetched_at)
               in py_bind (as_dict build) (\<lambda>build.
                    let record = dict_update record (marketcheck_build_fields H build)
                    in Inr (Some (marketcheck_backfill record))))))))"

section \<open>Well-shaped sub-objects\<close>

text \<open>
  \<^verbatim>\<open>x = listing.get(k) or {}\<close> is a mapping when the value under \<^verbatim>\<open>k\<close> is a mapping, or is
  falsy (missing, None, an empty string or list, zero, false) and the default replaces it.
  Any other value (a non-empty string or list, a number) stays, and the first
  \<^verbatim>\<open>x.get\<close> raises.
\<close>

definition mapping_or_falsy :: "pyval \<Rightarrow> bool" where
  "mapping_or_falsy v = (case v of PDict d \<Rightarrow> True | _ \<Rightarrow> \<not> truthy v)"

text \<open>The value of one column of the record a normaliser returned, when it returned
  one.\<close>

definition column_of :: "py_error + py_record option \<Rightarrow> string \<Rightarrow> pyval option" where
  "column_of result k =
     (case result of Inr (Some r) \<Rightarrow> Some (record_get r k) | _ \<Rightarrow> None)"

section \<open>Running the functions\<close>

text \<open>
  One implementation of the helpers, for running the normalisers on concrete listings:
  an integer, a float or a boolean coerces to itself, an integer to a float, everything
  else to nothing; the JSON text is not rendered.
\<close>

definition sample_helpers :: helpers where
  "sample_helpers =
     \<lparr>to_int = (\<lambda>v. case v of Scalar (SInt n) \<Rightarrow> Some n | _ \<Rightarrow> None),
      to_float = (\<lambda>v. case v of Scalar (SFloat x) \<Rightarrow> Some x | Scalar (SInt n) \<Rightarrow> Some (of_int n)
                      | _ \<Rightarrow> None),
      to_bool = (\<lambda>v. case v of Scalar (SBool b) \<Rightarrow> Some b | _ \<Rightarrow> None),
      json_dumps = (\<lambda>ensure_ascii v. ''{}'')\<rparr>"

section \<open>Properties of upsert\<close>

lemma column_zip_map:
  "c \<in> set cols \<Longrightarrow> column (zip cols (map f cols)) c = f c"
  by (simp add: column_def get_or_def map_of_zip_map)

lemma select_source_eq:
  "select_source conn vin = (case conn vin of None \<Rightarrow> None | Some r \<Rightarrow> Some (column r ''source''))"
  by (simp add: select_source_def split: option.splits)

text \<open>
  Claim C1, as amended. For every record whose \<^verbatim>\<open>vin\<close> and \<^verbatim>\<open>source\<close> pass the presence
  test of \<^verbatim>\<open>upsert\<close> (neither null nor empty nor zero): if a row for that VIN is stored
  and the priority of its source is strictly greater than the priority of the incoming
  source, \<^verbatim>\<open>upsert\<close> returns false and the table is unchanged; otherwise it returns true
  and the row stored under that VIN is the incoming record, column by column, whatever
  the old row held. The column list contains \<^verbatim>\<open>vin\<close>, the key of the table.
\<close>

theorem upsert_priority_rule:
  assumes "scalar_truthy (get_or record ''vin'' SNone)"
    and "scalar_truthy (get_or record ''source'' SNone)"
    and "''vin'' \<in> set UNIFIED_COLUMNS"
  shows "((\<exists>r. conn (get_or record ''vin'' SNone) = Some r \<and>
             priority_get PRIORITY (column r ''source'')
               > priority_get PRIORITY (get_or record ''source'' SNone))
          \<longrightarrow> upsert PRIORITY UNIFIED_COLUMNS conn record = (False, conn))
       \<and> (\<not> (\<exists>r. conn (get_or record ''vin'' SNone) = Some r \<and>
             priority_get PRIORITY (column r ''source'')
               > priority_get PRIORITY (get_or record ''source'' SNone))
          \<longrightarrow> (\<exists>new_row.
                 upsert PRIORITY UNIFIED_COLUMNS conn record
                   = (True, conn(get_or record ''vin'' SNone \<mapsto> new_row))
                 \<and> map fst new_row = UNIFIED_COLUMNS
                 \<and> (\<forall>c \<in> set UNIFIED_COLUMNS. column new_row c = get_or record c SNone)))"
proof -
  let ?vals = "map (\<lambda>c. get_or record c SNone) UNIFIED_COLUMNS"
  let ?new = "zip UNIFIED_COLUMNS ?vals"
  have key: "column ?new ''vin'' = get_or record ''vin'' SNone"
    using assms(3) by (rule column_zip_map)
  have ins: "insert_or_replace UNIFIED_COLUMNS conn ?vals
               = conn(get_or record ''vin'' SNone \<mapsto> ?new)"
    by (simp add: insert_or_replace_def Let_def key)
  have cols: "\<forall>c \<in> set UNIFIED_COLUMNS. column ?new c = get_or record c SNone"
    by (simp add: column_zip_map)
  have fst: "map fst ?new = UNIFIED_COLUMNS"
    by simp
  show ?thesis
    using assms(1,2) ins cols fst
    by (auto simp: upsert_def Let_def select_source_eq split: option.splits)
qed

theorem upsert_priority_rule_witness:
  "upsert [''autodev'' \<mapsto> 5, ''marketcheck'' \<mapsto> 10] [''vin'', ''source'', ''price'']
      [SStr ''1FAKE000000000001'' \<mapsto>
         [(''vin'', SStr ''1FAKE000000000001''), (''source'', SStr ''marketcheck''),
          (''price'', SInt 15000)]]
      [''vin'' \<mapsto> SStr ''1FAKE000000000001'', ''source'' \<mapsto> SStr ''autodev'']
    = (False,
       [SStr ''1FAKE000000000001'' \<mapsto>
         [(''vin'', SStr ''1FAKE000000000001''), (''source'', SStr ''marketcheck''),
          (''price'', SInt 15000)]])
   \<and> (\<exists>new_row.
        upsert [''autodev'' \<mapsto> 5, ''marketcheck'' \<mapsto> 10] [''vin'', ''source'', ''price'']
          [SStr ''1FAKE000000000001'' \<mapsto>
             [(''vin'', SStr ''1FAKE000000000001''), (''source'', SStr ''autodev''),
              (''price'', SInt 15000)]]
          [''vin'' \<mapsto> SStr ''1FAKE000000000001'', ''source'' \<mapsto> SStr ''autodev'']
        = (True,
           [SStr ''1FAKE000000000001'' \<mapsto>
             [(''vin'', SStr ''1FAKE000000000001''), (''source'', SStr ''autodev''),
              (''price'', SInt 15000)]]
           (SStr ''1FAKE000000000001'' \<mapsto> new_row))
        \<and> column new_row ''price'' = SNone)"
proof -
  let ?P = "[''autodev'' \<mapsto> 5 :: int, ''marketcheck'' \<mapsto> 10]"
  let ?cols = "[''vin'', ''source'', ''price'']"
  let ?rec = "[''vin'' \<mapsto> SStr ''1FAKE000000000001'', ''source'' \<mapsto> SStr ''autodev'']"
  let ?held = "[SStr ''1FAKE000000000001'' \<mapsto>
         [(''vin'', SStr ''1FAKE000000000001''), (''source'', SStr ''marketcheck''),
          (''price'', SInt 15000)]]"
  let ?tied = "[SStr ''1FAKE000000000001'' \<mapsto>
         [(''vin'', SStr ''1FAKE000000000001''), (''source'', SStr ''autodev''),
          (''price'', SInt 15000)]]"
  have v: "scalar_truthy (get_or ?rec ''vin'' SNone)"
    by (simp add: get_or_def)
  have s: "scalar_truthy (get_or ?rec ''source'' SNone)"
    by (simp add: get_or_def)
  have c: "''vin'' \<in> set ?cols"
    by simp
  have rejected: "upsert ?P ?cols ?held ?rec = (False, ?held)"
    using upsert_priority_rule [OF v s c, of ?held ?P]
    by (simp add: get_or_def column_def priority_get_def)
  have replaced: "\<exists>new_row. upsert ?P ?cols ?tied ?rec
        = (True, ?tied(SStr ''1FAKE000000000001'' \<mapsto> new_row))
      \<and> column new_row ''price'' = SNone"
    using upsert_priority_rule [OF v s c, of ?tied ?P]
    by (auto simp: get_or_def column_def priority_get_def)
  show ?thesis
    using rejected replaced by blast
qed

text \<open>
  Claim C1 as stated asks only for a non-null \<^verbatim>\<open>vin\<close> and \<^verbatim>\<open>source\<close>. The empty string is
  not null, no row is stored, and \<^verbatim>\<open>upsert\<close> still returns false.
\<close>

theorem upsert_empty_vin_counterexample:
  "get_or [''vin'' \<mapsto> SStr '''', ''source'' \<mapsto> SStr ''autodev''] ''vin'' SNone \<noteq> SNone
   \<and> get_or [''vin'' \<mapsto> SStr '''', ''source'' \<mapsto> SStr ''autodev''] ''source'' SNone \<noteq> SNone
   \<and> (Map.empty :: connection) (SStr '''') = None
   \<and> upsert [''autodev'' \<mapsto> 5, ''marketcheck'' \<mapsto> 10] [''vin'', ''source'', ''price'']
        Map.empty [''vin'' \<mapsto> SStr '''', ''source'' \<mapsto> SStr ''autodev'']
      = (False, Map.empty)"
  by (simp add: upsert_def get_or_def)

text \<open>
  Claim C4. A record that lacks a \<^verbatim>\<open>vin\<close> or lacks a \<^verbatim>\<open>source\<close> (the key is missing or its
  value is null) is rejected: \<^verbatim>\<open>upsert\<close> returns false and the table is unchanged.
\<close>

theorem upsert_rejects_missing_identity:
  "get_or record ''vin'' SNone = SNone \<or> get_or record ''source'' SNone = SNone
   \<Longrightarrow> upsert PRIORITY UNIFIED_COLUMNS conn record = (False, conn)"
  by (auto simp: upsert_def Let_def)

theorem upsert_rejects_missing_identity_witness:
  "upsert [''autodev'' \<mapsto> 5] [''vin'', ''source''] Map.empty [''source'' \<mapsto> SStr ''autodev'']
     = (False, Map.empty)
   \<and> upsert [''autodev'' \<mapsto> 5] [''vin'', ''source''] Map.empty
       [''vin'' \<mapsto> SStr ''1FAKE000000000001'', ''source'' \<mapsto> SNone]
     = (False, Map.empty)"
  using upsert_rejects_missing_identity
          [of "[''source'' \<mapsto> SStr ''autodev'']" "[''autodev'' \<mapsto> 5]" "[''vin'', ''source'']" Map.empty]
        upsert_rejects_missing_identity
          [of "[''vin'' \<mapsto> SStr ''1FAKE000000000001'', ''source'' \<mapsto> SNone]" "[''autodev'' \<mapsto> 5]"
              "[''vin'', ''source'']" Map.empty]
  by (simp add: get_or_def)

lemma priority_get_unknown:
  "\<forall>name. s = SStr name \<longrightarrow> PRIORITY name = None \<Longrightarrow> priority_get PRIORITY s = 0"
  by (cases s) (simp_all add: priority_get_def get_or_def)

lemma priority_get_nonneg:
  "\<forall>p \<in> ran PRIORITY. 0 \<le> p \<Longrightarrow> 0 \<le> priority_get PRIORITY s"
  by (cases s) (auto simp: priority_get_def get_or_def ran_def split: option.splits)

text \<open>
  Claim C9. A source name that is not in the priority table counts as priority 0 in the
  comparison: an incoming record from such a source is rejected whenever the stored row's
  source has a priority above 0, and a stored row whose source is not in the table is
  replaced by every incoming record whose \<^verbatim>\<open>vin\<close> and \<^verbatim>\<open>source\<close> pass the presence test. The
  priority table is a parameter; no source in it ranks below 0.
\<close>

theorem upsert_unknown_source_priority_zero:
  "(PRIORITY name = None \<longrightarrow> priority_get PRIORITY (SStr name) = 0)
   \<and> (get_or record ''source'' SNone = SStr name \<and> PRIORITY name = None
        \<and> conn (get_or record ''vin'' SNone) = Some r
        \<and> 0 < priority_get PRIORITY (column r ''source'')
      \<longrightarrow> upsert PRIORITY UNIFIED_COLUMNS conn record = (False, conn))
   \<and> (scalar_truthy (get_or record ''vin'' SNone) \<and> scalar_truthy (get_or record ''source'' SNone)
        \<and> conn (get_or record ''vin'' SNone) = Some r
        \<and> (\<forall>old. column r ''source'' = SStr old \<longrightarrow> PRIORITY old = None)
        \<and> (\<forall>p \<in> ran PRIORITY. 0 \<le> p) \<and> ''vin'' \<in> set UNIFIED_COLUMNS
      \<longrightarrow> upsert PRIORITY UNIFIED_COLUMNS conn record
            = (True, conn(get_or record ''vin'' SNone
                 \<mapsto> zip UNIFIED_COLUMNS (map (\<lambda>c. get_or record c SNone) UNIFIED_COLUMNS))))"
proof (intro conjI impI)
  assume "PRIORITY name = None"
  then show "priority_get PRIORITY (SStr name) = 0"
    by (simp add: priority_get_def get_or_def)
next
  assume a: "get_or record ''source'' SNone = SStr name \<and> PRIORITY name = None
        \<and> conn (get_or record ''vin'' SNone) = Some r
        \<and> 0 < priority_get PRIORITY (column r ''source'')"
  then have "priority_get PRIORITY (get_or record ''source'' SNone) = 0"
    by (simp add: priority_get_def get_or_def)
  with a show "upsert PRIORITY UNIFIED_COLUMNS conn record = (False, conn)"
    by (simp add: upsert_def Let_def select_source_eq)
next
  assume a: "scalar_truthy (get_or record ''vin'' SNone) \<and> scalar_truthy (get_or record ''source'' SNone)
        \<and> conn (get_or record ''vin'' SNone) = Some r
        \<and> (\<forall>old. column r ''source'' = SStr old \<longrightarrow> PRIORITY old = None)
        \<and> (\<forall>p \<in> ran PRIORITY. 0 \<le> p) \<and> ''vin'' \<in> set UNIFIED_COLUMNS"
  then have old: "priority_get PRIORITY (column r ''source'') = 0"
    by (simp add: priority_get_unknown)
  from a have new: "0 \<le> priority_get PRIORITY (get_or record ''source'' SNone)"
    by (simp add: priority_get_nonneg)
  from a have key: "column (zip UNIFIED_COLUMNS (map (\<lambda>c. get_or record c SNone) UNIFIED_COLUMNS)) ''vin''
      = get_or record ''vin'' SNone"
    by (simp add: column_zip_map)
  from a old new key
  show "upsert PRIORITY UNIFIED_COLUMNS conn record
            = (True, conn(get_or record ''vin'' SNone
                 \<mapsto> zip UNIFIED_COLUMNS (map (\<lambda>c. get_or record c SNone) UNIFIED_COLUMNS)))"
    by (simp add: upsert_def Let_def select_source_eq insert_or_replace_def)
qed

theorem upsert_unknown_source_priority_zero_witness:
  "priority_get [''autodev'' \<mapsto> 5, ''marketcheck'' \<mapsto> 10] (SStr ''scraper'') = 0
   \<and> upsert [''autodev'' \<mapsto> 5, ''marketcheck'' \<mapsto> 10] [''vin'', ''source'']
        [SStr ''1FAKE000000000001'' \<mapsto>
           [(''vin'', SStr ''1FAKE000000000001''), (''source'', SStr ''autodev'')]]
        [''vin'' \<mapsto> SStr ''1FAKE000000000001'', ''source'' \<mapsto> SStr ''scraper'']
      = (False, [SStr ''1FAKE000000000001'' \<mapsto>
           [(''vin'', SStr ''1FAKE000000000001''), (''source'', SStr ''autodev'')]])
   \<and> upsert [''autodev'' \<mapsto> 5, ''marketcheck'' \<mapsto> 10] [''vin'', ''source'']
        [SStr ''1FAKE000000000001'' \<mapsto>
           [(''vin'', SStr ''1FAKE000000000001''), (''source'', SStr ''scraper'')]]
        [''vin'' \<mapsto> SStr ''1FAKE000000000001'', ''source'' \<mapsto> SStr ''crawler'']
      = (True, [SStr ''1FAKE000000000001'' \<mapsto>
           [(''vin'', SStr ''1FAKE000000000001''), (''source'', SStr ''crawler'')]])"
proof -
  let ?P = "[''autodev'' \<mapsto> 5 :: int, ''marketcheck'' \<mapsto> 10]"
  have ran: "\<forall>p \<in> ran ?P. 0 \<le> p"
    by (auto simp: ran_def split: if_splits)
  have "priority_get ?P (SStr ''scraper'') = 0"
    using upsert_unknown_source_priority_zero [of ?P "''scraper''"]
    by simp
  moreover have "upsert ?P [''vin'', ''source'']
        [SStr ''1FAKE000000000001'' \<mapsto>
           [(''vin'', SStr ''1FAKE000000000001''), (''source'', SStr ''autodev'')]]
        [''vin'' \<mapsto> SStr ''1FAKE000000000001'', ''source'' \<mapsto> SStr ''scraper'']
      = (False, [SStr ''1FAKE000000000001'' \<mapsto>
           [(''vin'', SStr ''1FAKE000000000001''), (''source'', SStr ''autodev'')]])"
    using upsert_unknown_source_priority_zero [of ?P "''scraper''"
        "[''vin'' \<mapsto> SStr ''1FAKE000000000001'', ''source'' \<mapsto> SStr ''scraper'']"
        "[SStr ''1FAKE000000000001'' \<mapsto>
           [(''vin'', SStr ''1FAKE000000000001''), (''source'', SStr ''autodev'')]]"
        "[(''vin'', SStr ''1FAKE000000000001''), (''source'', SStr ''autodev'')]"]
    by (simp add: get_or_def column_def priority_get_def)
  moreover have "upsert ?P [''vin'', ''source'']
        [SStr ''1FAKE000000000001'' \<mapsto>
           [(''vin'', SStr ''1FAKE000000000001''), (''source'', SStr ''scraper'')]]
        [''vin'' \<mapsto> SStr ''1FAKE000000000001'', ''source'' \<mapsto> SStr ''crawler'']
      = (True, [SStr ''1FAKE000000000001'' \<mapsto>
           [(''vin'', SStr ''1FAKE000000000001''), (''source'', SStr ''crawler'')]])"
    using ran upsert_unknown_source_priority_zero [of ?P "''scraper''"
        "[''vin'' \<mapsto> SStr ''1FAKE000000000001'', ''source'' \<mapsto> SStr ''crawler'']"
        "[SStr ''1FAKE000000000001'' \<mapsto>
           [(''vin'', SStr ''1FAKE000000000001''), (''source'', SStr ''scraper'')]]"
        "[(''vin'', SStr ''1FAKE000000000001''), (''source'', SStr ''scraper'')]"
        "[''vin'', ''source'']"]
    by (simp add: get_or_def column_def)
  ultimately show ?thesis
    by blast
qed

section \<open>Records, updates and backfilling\<close>

lemma py_bind_Inr:
  "py_bind m f = Inr y \<longleftrightarrow> (\<exists>x. m = Inr x \<and> f x = Inr y)"
  by (cases m) (simp_all add: py_bind_def)

lemma as_dict_py_or:
  "as_dict (py_or v (PDict [])) = Inr d \<longleftrightarrow>
     (case v of PDict d' \<Rightarrow> d = d' | _ \<Rightarrow> \<not> truthy v \<and> d = [])"
  by (cases v) (auto simp: as_dict_def py_or_def)

lemma dict_update_lookup:
  "dict_update r kvs k = (case map_of (rev kvs) k of None \<Rightarrow> r k | Some v \<Rightarrow> Some v)"
  unfolding dict_update_def
proof (induction kvs arbitrary: r)
  case Nil
  then show ?case by simp
next
  case (Cons kv kvs)
  obtain k' v' where kv: "kv = (k', v')" by (cases kv)
  show ?case
    using Cons.IH [of "r(k' \<mapsto> v')"]
    by (simp add: kv map_add_def split: option.splits)
qed

lemma dict_update_distinct_lookup:
  "distinct (map fst kvs) \<Longrightarrow>
   dict_update r kvs k = (case map_of kvs k of None \<Rightarrow> r k | Some v \<Rightarrow> Some v)"
proof -
  assume d: "distinct (map fst kvs)"
  have "map_of (rev kvs) k = map_of kvs k"
  proof (cases "map_of kvs k")
    case None
    then have "k \<notin> fst ` set kvs"
      by (simp add: map_of_eq_None_iff)
    then have "map_of (rev kvs) k = None"
      by (simp add: map_of_eq_None_iff)
    with None show ?thesis
      by simp
  next
    case (Some v)
    then have "(k, v) \<in> set (rev kvs)"
      by (simp add: map_of_SomeD)
    moreover from d have "distinct (map fst (rev kvs))"
      by (simp add: rev_map [symmetric])
    ultimately show ?thesis
      using Some by simp
  qed
  then show ?thesis
    by (simp add: dict_update_lookup)
qed

lemma dict_update_other:
  "k \<notin> set (map fst kvs) \<Longrightarrow> dict_update r kvs k = r k"
proof -
  assume "k \<notin> set (map fst kvs)"
  then have "map_of (rev kvs) k = None"
    by (simp add: map_of_eq_None_iff)
  then show ?thesis
    by (simp add: dict_update_lookup)
qed

lemma empty_record_lookup:
  "empty_record cols k = (if k \<in> set cols then Some PNone else None)"
  unfolding empty_record_def
  by (induction cols) simp_all

lemma setdefault_lookup:
  "setdefault r k d k' = (if k' = k \<and> r k = None then Some d else r k')"
  by (simp add: setdefault_def split: option.splits)

lemma backfill_keeps:
  "r k = Some v \<Longrightarrow> backfill r dst src k = Some v"
  by (auto simp: backfill_def setdefault_lookup)

lemma backfill_other:
  "k \<noteq> dst \<Longrightarrow> backfill r dst src k = r k"
  by (simp add: backfill_def setdefault_lookup)

lemma backfill_unset:
  "record_get r src = PNone \<Longrightarrow> record_get (backfill r dst src) k = record_get r k"
  by (simp add: backfill_def setdefault_lookup record_get_def split: option.splits)

lemma backfill_seating_keeps:
  "r k = Some v \<Longrightarrow> backfill_seating r k = Some v"
  by (auto simp: backfill_seating_def setdefault_lookup split: pyval.splits scalar.splits)

lemma backfill_seating_other:
  "k \<noteq> ''build_std_seating'' \<Longrightarrow> backfill_seating r k = r k"
  by (auto simp: backfill_seating_def setdefault_lookup split: pyval.splits scalar.splits)

lemma backfill_seating_unset:
  "record_get r ''seats'' = PNone \<Longrightarrow> backfill_seating r = r"
  by (simp add: backfill_seating_def)

lemma autodev_backfill_keeps:
  "r k = Some v \<Longrightarrow> autodev_backfill r k = Some v"
  unfolding autodev_backfill_def Let_def
  by (simp add: backfill_keeps backfill_seating_keeps)

lemma autodev_backfill_other:
  "k \<notin> {''build_year'', ''build_make'', ''build_model'', ''build_trim'', ''build_body_type'',
         ''build_fuel_type'', ''build_transmission'', ''build_drivetrain'', ''build_engine'',
         ''build_doors'', ''build_std_seating''}
   \<Longrightarrow> autodev_backfill r k = r k"
  unfolding autodev_backfill_def Let_def
  by (simp add: backfill_other backfill_seating_other)

lemma autodev_backfill_unset:
  assumes "record_get r ''year'' = PNone" "record_get r ''make'' = PNone"
    "record_get r ''model'' = PNone" "record_get r ''trim'' = PNone"
    "record_get r ''body_style'' = PNone" "record_get r ''fuel_type'' = PNone"
    "record_get r ''transmission'' = PNone" "record_get r ''drivetrain'' = PNone"
    "record_get r ''engine'' = PNone" "record_get r ''doors'' = PNone"
    "record_get r ''seats'' = PNone"
  shows "record_get (autodev_backfill r) k = record_get r k"
  unfolding autodev_backfill_def Let_def
  by (simp add: backfill_unset backfill_seating_unset assms)

lemma marketcheck_backfill_keeps:
  "r k = Some v \<Longrightarrow> marketcheck_backfill r k = Some v"
  unfolding marketcheck_backfill_def Let_def
  by (simp add: backfill_keeps)

lemma marketcheck_backfill_other:
  "k \<notin> {''year'', ''make'', ''model'', ''trim'', ''body_style'', ''drivetrain'', ''engine'',
         ''fuel_type'', ''transmission'', ''doors''}
   \<Longrightarrow> marketcheck_backfill r k = r k"
  unfolding marketcheck_backfill_def Let_def
  by (simp add: backfill_other)

lemma marketcheck_backfill_unset:
  assumes "record_get r ''build_year'' = PNone" "record_get r ''build_make'' = PNone"
    "record_get r ''build_model'' = PNone" "record_get r ''build_trim'' = PNone"
    "record_get r ''build_body_type'' = PNone" "record_get r ''build_fuel_type'' = PNone"
    "record_get r ''build_transmission'' = PNone" "record_get r ''build_drivetrain'' = PNone"
    "record_get r ''build_engine'' = PNone" "record_get r ''build_doors'' = PNone"
  shows "record_get (marketcheck_backfill r) k = record_get r k"
  unfolding marketcheck_backfill_def Let_def
  by (simp add: backfill_unset assms)

section \<open>The record normalize_autodev_listing returns\<close>

lemma autodev_fields_keys:
  assumes "autodev_fields H listing vehicle retail dealer_details location photos vin fetched_at
             = Inr entries"
  shows "map fst entries =
     [''vin'', ''listing_id'', ''heading'', ''source'', ''price'', ''mileage'', ''msrp'',
      ''listing_created_at'', ''online'', ''data_fetched_at'', ''year'', ''make'', ''model'',
      ''trim'', ''body_style'', ''drivetrain'', ''engine'', ''fuel_type'', ''transmission'',
      ''doors'', ''seats'', ''exterior_color'', ''interior_color'', ''inventory_type'',
      ''is_used'', ''is_cpo'', ''is_certified'', ''stock_number'', ''dealer_name'',
      ''dealer_city'', ''dealer_state'', ''dealer_zip'', ''dealer_phone'', ''dealer_latitude'',
      ''dealer_longitude'', ''primary_image_url'', ''photo_count'', ''vdp_url'', ''carfax_url'',
      ''dealer_json'', ''build_json'', ''data_source'', ''carfax_one_owner'',
      ''carfax_clean_title'', ''raw_json'']"
  using assms unfolding autodev_fields_def py_bind_Inr
  apply (elim exE conjE)
  apply (simp only: sum.inject)
  apply hypsubst
  apply (simp only: list.map fst_conv)
  done

lemma autodev_fields_distinct:
  assumes "autodev_fields H listing vehicle retail dealer_details location photos vin fetched_at
             = Inr entries"
  shows "distinct (map fst entries)"
  by (simp only: autodev_fields_keys [OF assms]) simp

lemma autodev_fields_no_build:
  assumes "autodev_fields H listing vehicle retail dealer_details location photos vin fetched_at
             = Inr entries"
    and "k \<in> {''build_year'', ''build_make'', ''build_model'', ''build_trim'',
          ''build_body_type'', ''build_fuel_type'', ''build_transmission'', ''build_drivetrain'',
          ''build_engine'', ''build_doors'', ''build_std_seating''}"
  shows "map_of entries k = None"
proof -
  have "k \<notin> set (map fst entries)"
    using assms(2) by (simp only: autodev_fields_keys [OF assms(1)]) auto
  then show ?thesis
    by (simp add: map_of_eq_None_iff)
qed

lemma autodev_fields_values:
  assumes "autodev_fields H listing vehicle retail dealer_details location photos vin fetched_at
             = Inr entries"
  shows "map_of entries ''year'' = Some (int_value (to_int H (dict_get vehicle ''year'')))
    \<and> map_of entries ''inventory_type'' =
           Some (if dict_get retail ''used'' = PBool True then PStr ''used''
                 else if dict_get retail ''used'' = PBool False then PStr ''new'' else PNone)
    \<and> map_of entries ''is_used'' = Some (bool_value (to_bool H (dict_get retail ''used'')))"
  using assms unfolding autodev_fields_def py_bind_Inr
  apply (elim exE conjE)
  apply (simp only: sum.inject)
  apply hypsubst
  apply (simp only: map_of.simps fun_upd_apply)
  apply simp
  done

lemma autodev_fields_coordinates:
  assumes "autodev_fields H listing vehicle retail dealer_details location photos vin fetched_at
             = Inr entries"
  shows "\<exists>n latitude longitude. py_len location = Inr n
           \<and> (if n > 1 then py_index location 1 else attr_get dealer_details ''latitude'')
               = Inr latitude
           \<and> (if truthy location then py_index location 0
                       else attr_get dealer_details ''longitude'') = Inr longitude
           \<and> map_of entries ''dealer_latitude'' = Some (float_value (to_float H latitude))
           \<and> map_of entries ''dealer_longitude'' = Some (float_value (to_float H longitude))"
  using assms unfolding autodev_fields_def py_bind_Inr
  apply (elim exE conjE)
  apply (intro exI conjI)
      apply assumption
     apply assumption
    apply assumption
   apply (simp only: sum.inject, hypsubst, simp only: map_of.simps fun_upd_apply, simp)
  apply (simp only: sum.inject, hypsubst, simp only: map_of.simps fun_upd_apply, simp)
  done

lemma normalize_autodev_listing_Some:
  assumes "normalize_autodev_listing H cols listing fetched_at = Inr (Some r)"
  obtains retail vehicle entries where
    "as_dict (py_or (dict_get listing ''retailListing'') (PDict [])) = Inr retail"
    "as_dict (py_or (dict_get listing ''vehicle'') (PDict [])) = Inr vehicle"
    "truthy (dict_get vehicle ''vin'')"
    "autodev_fields H listing vehicle retail
       (py_or (dict_get retail ''dealerDetails'') (PDict []))
       (py_or (dict_get listing ''location'') (PList []))
       (py_or (dict_get retail ''photos'') (PList []))
       (dict_get vehicle ''vin'') fetched_at = Inr entries"
    "\<And>k v. k \<noteq> ''media_json'' \<Longrightarrow> map_of entries k = Some v \<Longrightarrow> r k = Some v"
    "\<And>k. k \<noteq> ''media_json'' \<Longrightarrow> map_of entries k = None \<Longrightarrow> k \<in> set cols
        \<Longrightarrow> r k = Some PNone"
proof -
  from assms obtain retail vehicle entries where
    retail: "as_dict (py_or (dict_get listing ''retailListing'') (PDict [])) = Inr retail"
    and vehicle: "as_dict (py_or (dict_get listing ''vehicle'') (PDict [])) = Inr vehicle"
    and vin: "truthy (dict_get vehicle ''vin'')"
    and entries: "autodev_fields H listing vehicle retail
       (py_or (dict_get retail ''dealerDetails'') (PDict []))
       (py_or (dict_get listing ''location'') (PList []))
       (py_or (dict_get retail ''photos'') (PList []))
       (dict_get vehicle ''vin'') fetched_at = Inr entries"
    and r: "r = autodev_backfill
          (if truthy (py_or (dict_get retail ''photos'') (PList []))
           then (dict_update (empty_record cols) entries)(''media_json'' \<mapsto>
                  PStr (json_dumps H False
                    (PDict [(''photos'', py_or (dict_get retail ''photos'') (PList []))])))
           else dict_update (empty_record cols) entries)"
    unfolding normalize_autodev_listing_def Let_def
    by (auto simp: py_bind_Inr split: if_splits)
  have d: "distinct (map fst entries)"
    using entries by (rule autodev_fields_distinct)
  have some: "r k = Some v" if "k \<noteq> ''media_json''" "map_of entries k = Some v" for k v
    unfolding r using that
    by (intro autodev_backfill_keeps) (simp add: dict_update_distinct_lookup [OF d])
  have none: "r k = Some PNone"
    if "k \<noteq> ''media_json''" "map_of entries k = None" "k \<in> set cols" for k
    unfolding r using that
    by (intro autodev_backfill_keeps)
      (simp add: dict_update_distinct_lookup [OF d] empty_record_lookup)
  from retail vehicle vin entries some none show thesis
    by (rule that)
qed

lemma autodev_build_columns_stay_unset:
  assumes "normalize_autodev_listing H UNIFIED_COLUMNS listing fetched_at = Inr (Some record)"
    and "k \<in> {''build_year'', ''build_make'', ''build_model'', ''build_trim'',
          ''build_body_type'', ''build_fuel_type'', ''build_transmission'', ''build_drivetrain'',
          ''build_engine'', ''build_doors'', ''build_std_seating''}"
    and "k \<in> set UNIFIED_COLUMNS"
  shows "record_get record k = PNone"
proof -
  from assms(1) obtain retail vehicle entries where
    entries: "autodev_fields H listing vehicle retail
       (py_or (dict_get retail ''dealerDetails'') (PDict []))
       (py_or (dict_get listing ''location'') (PList []))
       (py_or (dict_get retail ''photos'') (PList []))
       (dict_get vehicle ''vin'') fetched_at = Inr entries"
    and none: "\<And>k. k \<noteq> ''media_json'' \<Longrightarrow> map_of entries k = None \<Longrightarrow> k \<in> set UNIFIED_COLUMNS
        \<Longrightarrow> record k = Some PNone"
    by (elim normalize_autodev_listing_Some) blast
  have "map_of entries k = None"
    using entries assms(2) by (rule autodev_fields_no_build)
  moreover have "k \<noteq> ''media_json''"
    using assms(2) by auto
  ultimately have "record k = Some PNone"
    using assms(3) by (intro none)
  then show ?thesis
    by (simp add: record_get_def)
qed

lemma autodev_result_year:
  assumes "normalize_autodev_listing H cols listing fetched_at = Inr (Some r)"
    and "dict_get listing ''vehicle'' = PDict vehicle"
  shows "record_get r ''year'' = int_value (to_int H (dict_get vehicle ''year''))"
proof -
  from assms(1) obtain retail vehicle' entries where
    vehicle: "as_dict (py_or (dict_get listing ''vehicle'') (PDict [])) = Inr vehicle'"
    and entries: "autodev_fields H listing vehicle' retail
       (py_or (dict_get retail ''dealerDetails'') (PDict []))
       (py_or (dict_get listing ''location'') (PList []))
       (py_or (dict_get retail ''photos'') (PList []))
       (dict_get vehicle' ''vin'') fetched_at = Inr entries"
    and some: "\<And>k v. k \<noteq> ''media_json'' \<Longrightarrow> map_of entries k = Some v \<Longrightarrow> r k = Some v"
    by (elim normalize_autodev_listing_Some) blast
  from vehicle have "vehicle' = vehicle"
    by (simp add: as_dict_py_or assms(2))
  with autodev_fields_values [OF entries] show ?thesis
    by (auto simp: record_get_def dest!: some [rotated])
qed

lemma autodev_used_flag:
  assumes "normalize_autodev_listing H UNIFIED_COLUMNS listing fetched_at = Inr (Some record)"
    and "used = (case dict_get listing ''retailListing'' of
                   PDict retail \<Rightarrow> dict_get retail ''used'' | _ \<Rightarrow> PNone)"
  shows "record_get record ''inventory_type'' =
           (if used = PBool True then PStr ''used''
            else if used = PBool False then PStr ''new'' else PNone)
       \<and> record_get record ''is_used'' = bool_value (to_bool H used)"
proof -
  from assms(1) obtain retail vehicle entries where
    retail: "as_dict (py_or (dict_get listing ''retailListing'') (PDict [])) = Inr retail"
    and entries: "autodev_fields H listing vehicle retail
       (py_or (dict_get retail ''dealerDetails'') (PDict []))
       (py_or (dict_get listing ''location'') (PList []))
       (py_or (dict_get retail ''photos'') (PList []))
       (dict_get vehicle ''vin'') fetched_at = Inr entries"
    and some: "\<And>k v. k \<noteq> ''media_json'' \<Longrightarrow> map_of entries k = Some v \<Longrightarrow> record k = Some v"
    by (elim normalize_autodev_listing_Some) blast
  from retail have used: "used = dict_get retail ''used''"
    unfolding assms(2) as_dict_py_or
    by (cases "dict_get listing ''retailListing''") (auto simp: dict_get_def)
  from autodev_fields_values [OF entries] show ?thesis
    unfolding used by (auto simp: record_get_def dest!: some [rotated])
qed

section \<open>The record normalize_marketcheck_listing returns\<close>

lemma marketcheck_fields_keys:
  "map fst (marketcheck_fields H listing build dealer mc_dealership financing leasing media
       primary_image photo_count vin fetched_at) =
     [''vin'', ''listing_id'', ''heading'', ''source'', ''price'', ''mileage'', ''msrp'',
      ''ref_price'', ''price_change_percent'', ''ref_price_dt'', ''ref_miles'', ''ref_miles_dt'',
      ''first_seen_at'', ''first_seen_at_date'', ''first_seen_at_source'',
      ''first_seen_at_source_date'', ''first_seen_at_mc'', ''first_seen_at_mc_date'',
      ''last_seen_at'', ''last_seen_at_date'', ''scraped_at'', ''scraped_at_date'',
      ''data_fetched_at'', ''exterior_color'', ''interior_color'', ''base_ext_color'',
      ''base_int_color'', ''dom'', ''dom_180'', ''dom_active'', ''dos_active'', ''seller_type'',
      ''inventory_type'', ''availability_status'', ''is_certified'', ''is_cpo'', ''is_used'',
      ''in_transit'', ''model_code'', ''stock_number'', ''dealer_name'', ''dealer_city'',
      ''dealer_state'', ''dealer_zip'', ''dealer_phone'', ''dealer_latitude'',
      ''dealer_longitude'', ''dealer_country'', ''dealer_type'', ''dealer_msa_code'', ''dist'',
      ''vdp_url'', ''carfax_one_owner'', ''carfax_clean_title'', ''primary_image_url'',
      ''photo_count'', ''financing_options_json'', ''leasing_options_json'', ''media_json'',
      ''dealer_json'', ''mc_dealership_json'', ''build_json'', ''data_source'', ''raw_json'']"
  by (simp only: marketcheck_fields_def list.map fst_conv)

lemma marketcheck_build_fields_keys:
  "map fst (marketcheck_build_fields H build) =
     [''build_year'', ''build_make'', ''build_model'', ''build_trim'', ''build_version'',
      ''build_body_type'', ''build_vehicle_type'', ''build_transmission'', ''build_drivetrain'',
      ''build_fuel_type'', ''build_engine'', ''build_doors'', ''build_cylinders'',
      ''build_std_seating'', ''build_highway_mpg'', ''build_city_mpg'']"
  by (simp only: marketcheck_build_fields_def list.map fst_conv)

lemma marketcheck_fields_used:
  "map_of (marketcheck_fields H listing build dealer mc_dealership financing leasing media
       primary_image photo_count vin fetched_at) ''is_used''
     = Some (marketcheck_is_used (dict_get listing ''inventory_type''))
   \<and> map_of (marketcheck_fields H listing build dealer mc_dealership financing leasing media
       primary_image photo_count vin fetched_at) ''inventory_type''
     = Some (dict_get listing ''inventory_type'')"
  by (simp only: marketcheck_fields_def map_of.simps fun_upd_apply) simp

lemma normalize_marketcheck_listing_Some:
  assumes "normalize_marketcheck_listing H cols listing fetched_at = Inr (Some r)"
  shows "truthy (dict_get listing ''vin'')
    \<and> (\<exists>build dealer media primary_image photo_count.
          as_dict (py_or (dict_get listing ''build'') (PDict [])) = Inr build
        \<and> r = marketcheck_backfill
           (dict_update
              (dict_update (empty_record cols)
                 (marketcheck_fields H listing (py_or (dict_get listing ''build'') (PDict []))
                    dealer (py_or (dict_get listing ''mc_dealership'') (PDict []))
                    (py_or (dict_get listing ''financing_options'') (PDict []))
                    (py_or (dict_get listing ''leasing_options'') (PDict [])) media
                    primary_image photo_count (dict_get listing ''vin'') fetched_at))
              (marketcheck_build_fields H build)))"
  using assms unfolding normalize_marketcheck_listing_def Let_def
  by (fastforce simp: py_bind_Inr split: if_splits)

lemma marketcheck_result_entry:
  assumes "normalize_marketcheck_listing H cols listing fetched_at = Inr (Some r)"
  shows "r ''is_used'' = Some (marketcheck_is_used (dict_get listing ''inventory_type''))"
    and "r ''inventory_type'' = Some (dict_get listing ''inventory_type'')"
proof -
  from normalize_marketcheck_listing_Some [OF assms]
  obtain build dealer media primary_image photo_count entries where
    entries: "entries = marketcheck_fields H listing (py_or (dict_get listing ''build'') (PDict []))
         dealer (py_or (dict_get listing ''mc_dealership'') (PDict []))
         (py_or (dict_get listing ''financing_options'') (PDict []))
         (py_or (dict_get listing ''leasing_options'') (PDict [])) media
         primary_image photo_count (dict_get listing ''vin'') fetched_at"
    and r: "r = marketcheck_backfill
           (dict_update (dict_update (empty_record cols) entries) (marketcheck_build_fields H build))"
    by blast
  have d: "distinct (map fst entries)"
    unfolding entries by (simp only: marketcheck_fields_keys) simp
  have
    used: "map_of entries ''is_used'' = Some (marketcheck_is_used (dict_get listing ''inventory_type''))"
    and inv: "map_of entries ''inventory_type'' = Some (dict_get listing ''inventory_type'')"
    unfolding entries using marketcheck_fields_used by auto
  have build: "dict_update m (marketcheck_build_fields H build) k = m k"
    if "k = ''is_used'' \<or> k = ''inventory_type''" for m k
    using that
    by (intro dict_update_other) (auto simp only: marketcheck_build_fields_keys, auto)
  show "r ''is_used'' = Some (marketcheck_is_used (dict_get listing ''inventory_type''))"
    unfolding r
    by (simp add: marketcheck_backfill_other build dict_update_distinct_lookup [OF d] used)
  show "r ''inventory_type'' = Some (dict_get listing ''inventory_type'')"
    unfolding r
    by (simp add: marketcheck_backfill_other build dict_update_distinct_lookup [OF d] inv)
qed

lemma marketcheck_generic_unset:
  assumes "normalize_marketcheck_listing H cols listing fetched_at = Inr (Some r)"
    and "k \<in> {''year'', ''make'', ''model'', ''trim'', ''body_style'', ''drivetrain'',
          ''engine'', ''fuel_type'', ''transmission'', ''doors''}"
    and "k \<in> set cols"
  shows "r k = Some PNone"
proof -
  from normalize_marketcheck_listing_Some [OF assms(1)]
  obtain build dealer media primary_image photo_count entries where
    entries: "entries = marketcheck_fields H listing (py_or (dict_get listing ''build'') (PDict []))
         dealer (py_or (dict_get listing ''mc_dealership'') (PDict []))
         (py_or (dict_get listing ''financing_options'') (PDict []))
         (py_or (dict_get listing ''leasing_options'') (PDict [])) media
         primary_image photo_count (dict_get listing ''vin'') fetched_at"
    and r: "r = marketcheck_backfill
           (dict_update (dict_update (empty_record cols) entries) (marketcheck_build_fields H build))"
    by blast
  have "k \<notin> set (map fst (marketcheck_build_fields H build))"
    using assms(2) by (simp only: marketcheck_build_fields_keys) auto
  moreover have "k \<notin> set (map fst entries)"
    unfolding entries using assms(2) by (simp only: marketcheck_fields_keys) auto
  ultimately have
    "dict_update (dict_update (empty_record cols) entries) (marketcheck_build_fields H build) k
       = Some PNone"
    using assms(3) by (simp add: dict_update_other empty_record_lookup)
  then show ?thesis
    unfolding r by (rule marketcheck_backfill_keeps)
qed

section \<open>Properties of the normalisers\<close>

lemmas eval_defs =
  normalize_autodev_listing_def autodev_fields_def normalize_marketcheck_listing_def
  py_bind_def or_else_def as_dict_def attr_get_def py_or_def dict_get_def Let_def
  sample_helpers_def int_value_def float_value_def bool_value_def

text \<open>
  Claim C3. The claim: an Auto.dev listing whose vehicle has year 2020 and no build year
  yields a record with \<^verbatim>\<open>year = 2020\<close> and \<^verbatim>\<open>build_year = 2020\<close>, and likewise for the other
  generic/build pairs. The code does not do this. \<^verbatim>\<open>empty_record()\<close> has every unified
  column as a key, with the value None, and \<^verbatim>\<open>setdefault\<close> only stores under a key that is
  missing: in every record \<^verbatim>\<open>normalize_autodev_listing\<close> returns, each \<^verbatim>\<open>build_*\<close> column of
  the unified schema is unset, whatever the vehicle holds; and in every record
  \<^verbatim>\<open>normalize_marketcheck_listing\<close> returns, each generic column it means to backfill
  (\<^verbatim>\<open>year\<close>, \<^verbatim>\<open>make\<close>, ...) is unset, whatever the build holds.
\<close>

theorem backfill_leaves_unified_columns_unset:
  "(normalize_autodev_listing H UNIFIED_COLUMNS listing fetched_at = Inr (Some record)
      \<and> k \<in> {''build_year'', ''build_make'', ''build_model'', ''build_trim'',
            ''build_body_type'', ''build_fuel_type'', ''build_transmission'',
            ''build_drivetrain'', ''build_engine'', ''build_doors'', ''build_std_seating''}
      \<and> k \<in> set UNIFIED_COLUMNS
    \<longrightarrow> record_get record k = PNone)
   \<and> (normalize_marketcheck_listing H UNIFIED_COLUMNS listing fetched_at = Inr (Some record)
      \<and> k \<in> {''year'', ''make'', ''model'', ''trim'', ''body_style'', ''drivetrain'',
            ''engine'', ''fuel_type'', ''transmission'', ''doors''}
      \<and> k \<in> set UNIFIED_COLUMNS
    \<longrightarrow> record_get record k = PNone)"
  using autodev_build_columns_stay_unset [of H UNIFIED_COLUMNS listing fetched_at "record" k]
    marketcheck_generic_unset [of H UNIFIED_COLUMNS listing fetched_at "record" k]
  by (auto simp: record_get_def)

theorem backfill_leaves_unified_columns_unset_witness:
  "\<exists>record.
     normalize_autodev_listing sample_helpers [''vin'', ''source'', ''year'', ''build_year'']
       [(''vehicle'', PDict [(''vin'', PStr ''1FAKE000000000001''), (''year'', PInt 2020)])]
       ''2024-01-01T00:00:00'' = Inr (Some record)
     \<and> record_get record ''year'' = PInt 2020
     \<and> record_get record ''build_year'' = PNone"
proof -
  let ?cols = "[''vin'', ''source'', ''year'', ''build_year'']"
  let ?vehicle = "[(''vin'', PStr ''1FAKE000000000001''), (''year'', PInt 2020)]"
  let ?listing = "[(''vehicle'', PDict ?vehicle)]"
  obtain r where
    r: "normalize_autodev_listing sample_helpers ?cols ?listing ''2024-01-01T00:00:00''
               = Inr (Some r)"
    by (simp add: eval_defs)
  have "record_get r ''year'' = PInt 2020"
    using autodev_result_year [OF r, of ?vehicle]
    by (simp add: dict_get_def sample_helpers_def int_value_def)
  moreover have "record_get r ''build_year'' = PNone"
    using r
      backfill_leaves_unified_columns_unset
        [of sample_helpers ?cols ?listing "''2024-01-01T00:00:00''" r "''build_year''"]
    by simp
  ultimately show ?thesis
    using r by blast
qed

text \<open>
  Claim C5. When the \<^verbatim>\<open>location\<close> of an Auto.dev listing is a coordinate pair, the record
  produced has \<^verbatim>\<open>dealer_longitude\<close> from its first element and \<^verbatim>\<open>dealer_latitude\<close> from its
  second, each through \<^verbatim>\<open>to_float\<close>; for the pair \<^verbatim>\<open>[-122.4, 37.8]\<close>, with a \<^verbatim>\<open>to_float\<close> that
  returns a float as it is, these are -122.4 and 37.8.
\<close>

theorem autodev_location_longitude_first:
  assumes "normalize_autodev_listing H UNIFIED_COLUMNS listing fetched_at = Inr (Some record)"
    and "dict_get listing ''location'' = PList (first # second # rest)"
  shows "record_get record ''dealer_longitude'' = float_value (to_float H first)
       \<and> record_get record ''dealer_latitude'' = float_value (to_float H second)
       \<and> (to_float H first = Some lon \<and> to_float H second = Some lat \<longrightarrow>
            record_get record ''dealer_longitude'' = PFloat lon
          \<and> record_get record ''dealer_latitude'' = PFloat lat)"
proof -
  from assms(1) obtain retail vehicle entries where
    entries: "autodev_fields H listing vehicle retail
       (py_or (dict_get retail ''dealerDetails'') (PDict []))
       (py_or (dict_get listing ''location'') (PList []))
       (py_or (dict_get retail ''photos'') (PList []))
       (dict_get vehicle ''vin'') fetched_at = Inr entries"
    and some: "\<And>k v. k \<noteq> ''media_json'' \<Longrightarrow> map_of entries k = Some v \<Longrightarrow> record k = Some v"
    by (elim normalize_autodev_listing_Some) blast
  have location: "py_or (dict_get listing ''location'') (PList []) = PList (first # second # rest)"
    by (simp add: assms(2) py_or_def)
  from autodev_fields_coordinates [OF entries] obtain n latitude longitude where
    "py_len (PList (first # second # rest)) = Inr n"
    and "(if n > 1 then py_index (PList (first # second # rest)) 1
          else attr_get (py_or (dict_get retail ''dealerDetails'') (PDict [])) ''latitude'')
         = Inr latitude"
    and "(if truthy (PList (first # second # rest))
          then py_index (PList (first # second # rest)) 0
          else attr_get (py_or (dict_get retail ''dealerDetails'') (PDict [])) ''longitude'')
         = Inr longitude"
    and lat: "map_of entries ''dealer_latitude'' = Some (float_value (to_float H latitude))"
    and lon: "map_of entries ''dealer_longitude'' = Some (float_value (to_float H longitude))"
    unfolding location by blast
  then have "latitude = second" and "longitude = first"
    by auto
  with lat lon have "record ''dealer_latitude'' = Some (float_value (to_float H second))"
    and "record ''dealer_longitude'' = Some (float_value (to_float H first))"
    by (auto intro: some)
  then show ?thesis
    by (simp add: record_get_def float_value_def)
qed

theorem autodev_location_longitude_first_witness:
  "\<exists>r.
     normalize_autodev_listing sample_helpers [''vin'', ''dealer_latitude'', ''dealer_longitude'']
       [(''vehicle'', PDict [(''vin'', PStr ''1FAKE000000000001'')]),
        (''location'', PList [PFloat (-122.4), PFloat 37.8])]
       ''2024-01-01T00:00:00'' = Inr (Some r)
     \<and> record_get r ''dealer_longitude'' = PFloat (-122.4)
     \<and> record_get r ''dealer_latitude'' = PFloat 37.8"
proof -
  let ?cols = "[''vin'', ''dealer_latitude'', ''dealer_longitude'']"
  let ?listing = "[(''vehicle'', PDict [(''vin'', PStr ''1FAKE000000000001'')]),
        (''location'', PList [PFloat (-122.4), PFloat 37.8])]"
  obtain r where
    r: "normalize_autodev_listing sample_helpers ?cols ?listing ''2024-01-01T00:00:00''
               = Inr (Some r)"
    by (simp add: eval_defs)
  have "record_get r ''dealer_longitude'' = PFloat (-122.4)
      \<and> record_get r ''dealer_latitude'' = PFloat 37.8"
    using autodev_location_longitude_first
        [OF r, of "PFloat (-122.4)" "PFloat 37.8" "[]" "-122.4" "37.8"]
    by (simp add: dict_get_def sample_helpers_def float_value_def)
  then show ?thesis
    using r by blast
qed

text \<open>
  Claim C8. Both normalisers fill \<^verbatim>\<open>inventory_type\<close> and \<^verbatim>\<open>is_used\<close>. In a record produced
  by \<^verbatim>\<open>normalize_autodev_listing\<close>, \<^verbatim>\<open>inventory_type\<close> is "used" when the \<^verbatim>\<open>used\<close> flag of the
  retail listing is the boolean true, "new" when it is the boolean false and unset
  otherwise, and \<^verbatim>\<open>is_used\<close> is \<^verbatim>\<open>to_bool\<close> of that flag. In a record produced by
  \<^verbatim>\<open>normalize_marketcheck_listing\<close>, \<^verbatim>\<open>inventory_type\<close> is the token as received and
  \<^verbatim>\<open>is_used\<close> is 1 when the token, stripped and lower-cased, is "used", 0 when it is
  "new", and unset for every other token and for a value that is not a string.
\<close>

theorem used_indicator_mapping:
  "(normalize_autodev_listing H UNIFIED_COLUMNS listing fetched_at = Inr (Some record)
      \<and> used = (case dict_get listing ''retailListing'' of
                  PDict retail \<Rightarrow> dict_get retail ''used'' | _ \<Rightarrow> PNone)
    \<longrightarrow> record_get record ''inventory_type'' =
           (if used = PBool True then PStr ''used''
            else if used = PBool False then PStr ''new'' else PNone)
        \<and> record_get record ''is_used'' = bool_value (to_bool H used))
   \<and> (normalize_marketcheck_listing H UNIFIED_COLUMNS listing fetched_at = Inr (Some record)
    \<longrightarrow> record_get record ''inventory_type'' = dict_get listing ''inventory_type''
        \<and> record_get record ''is_used'' =
           (case dict_get listing ''inventory_type'' of
              Scalar (SStr token) \<Rightarrow>
                if py_lower (py_strip token) = ''used'' then PInt 1
                else if py_lower (py_strip token) = ''new'' then PInt 0
                else PNone
            | _ \<Rightarrow> PNone))"
proof (rule conjI; rule impI)
  assume "normalize_autodev_listing H UNIFIED_COLUMNS listing fetched_at = Inr (Some record)
      \<and> used = (case dict_get listing ''retailListing'' of
                  PDict retail \<Rightarrow> dict_get retail ''used'' | _ \<Rightarrow> PNone)"
  then show "record_get record ''inventory_type'' =
           (if used = PBool True then PStr ''used''
            else if used = PBool False then PStr ''new'' else PNone)
        \<and> record_get record ''is_used'' = bool_value (to_bool H used)"
    using autodev_used_flag [of H UNIFIED_COLUMNS listing fetched_at "record" used]
    by blast
next
  assume a: "normalize_marketcheck_listing H UNIFIED_COLUMNS listing fetched_at = Inr (Some record)"
  from marketcheck_result_entry [OF a]
  show "record_get record ''inventory_type'' = dict_get listing ''inventory_type''
        \<and> record_get record ''is_used'' =
           (case dict_get listing ''inventory_type'' of
              Scalar (SStr token) \<Rightarrow>
                if py_lower (py_strip token) = ''used'' then PInt 1
                else if py_lower (py_strip token) = ''new'' then PInt 0
                else PNone
            | _ \<Rightarrow> PNone)"
    by (simp add: record_get_def marketcheck_is_used_def Let_def
        split: pyval.splits scalar.splits)
qed

theorem used_indicator_mapping_witness:
  "(\<exists>r.
     normalize_autodev_listing sample_helpers [''vin'', ''inventory_type'', ''is_used'']
       [(''vehicle'', PDict [(''vin'', PStr ''1FAKE000000000001'')]),
        (''retailListing'', PDict [(''used'', PBool True)])]
       ''2024-01-01T00:00:00'' = Inr (Some r)
     \<and> record_get r ''inventory_type'' = PStr ''used''
     \<and> record_get r ''is_used'' = PBool True)
   \<and> (\<exists>r.
     normalize_marketcheck_listing sample_helpers [''vin'', ''inventory_type'', ''is_used'']
       [(''vin'', PStr ''1FAKE000000000001''), (''inventory_type'', PStr '' Used '')]
       ''2024-01-01T00:00:00'' = Inr (Some r)
     \<and> record_get r ''inventory_type'' = PStr '' Used ''
     \<and> record_get r ''is_used'' = PInt 1)"
proof -
  let ?cols = "[''vin'', ''inventory_type'', ''is_used'']"
  let ?a = "[(''vehicle'', PDict [(''vin'', PStr ''1FAKE000000000001'')]),
        (''retailListing'', PDict [(''used'', PBool True)])]"
  let ?m = "[(''vin'', PStr ''1FAKE000000000001''), (''inventory_type'', PStr '' Used '')]"
  obtain ra where
    ra: "normalize_autodev_listing sample_helpers ?cols ?a ''2024-01-01T00:00:00'' = Inr (Some ra)"
    by (simp add: eval_defs)
  obtain rm where
    rm: "normalize_marketcheck_listing sample_helpers ?cols ?m ''2024-01-01T00:00:00''
           = Inr (Some rm)"
    by (simp add: eval_defs)
  have token: "py_lower (py_strip '' Used '') = ''used''"
    by code_simp
  have "record_get ra ''inventory_type'' = PStr ''used'' \<and> record_get ra ''is_used'' = PBool True"
    using ra used_indicator_mapping
      [of sample_helpers ?cols ?a "''2024-01-01T00:00:00''" ra "PBool True"]
    by (simp add: dict_get_def sample_helpers_def bool_value_def)
  moreover have "record_get rm ''inventory_type'' = PStr '' Used ''
      \<and> record_get rm ''is_used'' = PInt 1"
    using rm used_indicator_mapping
      [of sample_helpers ?cols ?m "''2024-01-01T00:00:00''" rm]
    by (simp add: dict_get_def token)
  ultimately show ?thesis
    using ra rm by blast
qed

section \<open>Listings without a VIN, and listings with nothing else\<close>

text \<open>
  Claim C2, as amended. For a raw listing whose VIN is absent,
  \<^verbatim>\<open>normalize_marketcheck_listing\<close> returns None whatever else the payload holds: the VIN is
  tested first. \<^verbatim>\<open>normalize_autodev_listing\<close> returns None when the \<^verbatim>\<open>retailListing\<close> and
  \<^verbatim>\<open>vehicle\<close> entries are each a mapping or falsy (missing, null, empty); with any other
  value there it raises AttributeError, at \<^verbatim>\<open>retail.get\<close> or at \<^verbatim>\<open>vehicle.get\<close>, before or at
  the VIN test.
\<close>

theorem missing_vin_returns_none:
  "(dict_get listing ''vin'' = PNone
      \<longrightarrow> normalize_marketcheck_listing H UNIFIED_COLUMNS listing fetched_at = Inr None)
   \<and> ((\<forall>vehicle. dict_get listing ''vehicle'' = PDict vehicle \<longrightarrow> dict_get vehicle ''vin'' = PNone)
      \<longrightarrow> normalize_autodev_listing H UNIFIED_COLUMNS listing fetched_at =
            (if mapping_or_falsy (dict_get listing ''retailListing'')
                \<and> mapping_or_falsy (dict_get listing ''vehicle'')
             then Inr None else Inl AttributeError))"
proof (rule conjI; rule impI)
  assume "dict_get listing ''vin'' = PNone"
  then show "normalize_marketcheck_listing H UNIFIED_COLUMNS listing fetched_at = Inr None"
    by (simp add: normalize_marketcheck_listing_def)
next
  assume vin: "\<forall>vehicle. dict_get listing ''vehicle'' = PDict vehicle \<longrightarrow> dict_get vehicle ''vin'' = PNone"
  have empty: "dict_get [] ''vin'' = PNone"
    by (simp add: dict_get_def)
  show "normalize_autodev_listing H UNIFIED_COLUMNS listing fetched_at =
            (if mapping_or_falsy (dict_get listing ''retailListing'')
                \<and> mapping_or_falsy (dict_get listing ''vehicle'')
             then Inr None else Inl AttributeError)"
  proof (cases "dict_get listing ''retailListing''")
    case (Scalar s)
    then show ?thesis
      using vin empty
      by (cases "dict_get listing ''vehicle''")
        (auto simp: normalize_autodev_listing_def Let_def py_bind_def as_dict_def py_or_def
          mapping_or_falsy_def)
  next
    case (PList xs)
    then show ?thesis
      using vin empty
      by (cases "dict_get listing ''vehicle''")
        (auto simp: normalize_autodev_listing_def Let_def py_bind_def as_dict_def py_or_def
          mapping_or_falsy_def)
  next
    case (PDict d)
    then show ?thesis
      using vin empty
      by (cases "dict_get listing ''vehicle''")
        (auto simp: normalize_autodev_listing_def Let_def py_bind_def as_dict_def py_or_def
          mapping_or_falsy_def)
  qed
qed

theorem missing_vin_returns_none_witness:
  "normalize_marketcheck_listing sample_helpers [''vin'', ''source'', ''price'']
     [(''price'', PInt 9000), (''dealer'', PStr ''n/a'')] ''2024-01-01T00:00:00'' = Inr None
   \<and> normalize_autodev_listing sample_helpers [''vin'', ''source'', ''price'']
       [(''vehicle'', PDict [(''year'', PInt 2020)]),
        (''retailListing'', PDict [(''price'', PInt 9000)])] ''2024-01-01T00:00:00'' = Inr None"
  using missing_vin_returns_none
      [of "[(''price'', PInt 9000), (''dealer'', PStr ''n/a'')]" sample_helpers
          "[''vin'', ''source'', ''price'']" "''2024-01-01T00:00:00''"]
    missing_vin_returns_none
      [of "[(''vehicle'', PDict [(''year'', PInt 2020)]),
            (''retailListing'', PDict [(''price'', PInt 9000)])]" sample_helpers
          "[''vin'', ''source'', ''price'']" "''2024-01-01T00:00:00''"]
  by (simp add: dict_get_def mapping_or_falsy_def)

text \<open>
  Claim C2 as stated has "regardless of any other fields in the payload". A listing with
  no vehicle, so no VIN, and a \<^verbatim>\<open>retailListing\<close> that is a string makes
  \<^verbatim>\<open>normalize_autodev_listing\<close> raise: \<^verbatim>\<open>retail.get("dealerDetails")\<close> is called on the string.
\<close>

theorem missing_vin_malformed_retail_counterexample:
  "dict_get [(''retailListing'', PStr ''n/a'')] ''vehicle'' = PNone
   \<and> normalize_autodev_listing sample_helpers [''vin'', ''source'', ''price'']
       [(''retailListing'', PStr ''n/a'')] ''2024-01-01T00:00:00'' = Inl AttributeError"
  by (simp add: eval_defs)

text \<open>
  Claim C10, as amended. An empty-string VIN or source is treated as an absent one. For a
  raw listing whose VIN is the empty string, \<^verbatim>\<open>normalize_marketcheck_listing\<close> returns None,
  and \<^verbatim>\<open>normalize_autodev_listing\<close> returns None when the \<^verbatim>\<open>retailListing\<close> entry is a mapping
  or falsy and raises AttributeError otherwise, which is what it does when the VIN is
  absent. \<^verbatim>\<open>upsert\<close> returns false and leaves the table unchanged for a record whose \<^verbatim>\<open>vin\<close>
  or \<^verbatim>\<open>source\<close> is the empty string.
\<close>

theorem empty_string_identity_is_absent:
  "(dict_get listing ''vin'' = PStr ''''
      \<longrightarrow> normalize_marketcheck_listing H UNIFIED_COLUMNS listing fetched_at = Inr None)
   \<and> (dict_get listing ''vehicle'' = PDict vehicle \<and> dict_get vehicle ''vin'' = PStr ''''
      \<longrightarrow> normalize_autodev_listing H UNIFIED_COLUMNS listing fetched_at =
            (if mapping_or_falsy (dict_get listing ''retailListing'')
             then Inr None else Inl AttributeError))
   \<and> (get_or record ''vin'' SNone = SStr '''' \<or> get_or record ''source'' SNone = SStr ''''
      \<longrightarrow> upsert PRIORITY UNIFIED_COLUMNS conn record = (False, conn))"
proof (intro conjI impI)
  assume "dict_get listing ''vin'' = PStr ''''"
  then show "normalize_marketcheck_listing H UNIFIED_COLUMNS listing fetched_at = Inr None"
    by (simp add: normalize_marketcheck_listing_def)
next
  assume a: "dict_get listing ''vehicle'' = PDict vehicle \<and> dict_get vehicle ''vin'' = PStr ''''"
  then have "vehicle \<noteq> []"
    by (auto simp: dict_get_def)
  with a show "normalize_autodev_listing H UNIFIED_COLUMNS listing fetched_at =
            (if mapping_or_falsy (dict_get listing ''retailListing'')
             then Inr None else Inl AttributeError)"
    by (cases "dict_get listing ''retailListing''")
      (auto simp: normalize_autodev_listing_def Let_def py_bind_def as_dict_def py_or_def
        mapping_or_falsy_def)
next
  assume "get_or record ''vin'' SNone = SStr '''' \<or> get_or record ''source'' SNone = SStr ''''"
  then show "upsert PRIORITY UNIFIED_COLUMNS conn record = (False, conn)"
    by (auto simp: upsert_def Let_def)
qed

theorem empty_string_identity_is_absent_witness:
  "normalize_marketcheck_listing sample_helpers [''vin'', ''source'', ''price'']
     [(''vin'', PStr ''''), (''price'', PInt 9000)] ''2024-01-01T00:00:00'' = Inr None
   \<and> normalize_autodev_listing sample_helpers [''vin'', ''source'', ''price'']
       [(''vehicle'', PDict [(''vin'', PStr ''''), (''year'', PInt 2020)])]
       ''2024-01-01T00:00:00'' = Inr None
   \<and> upsert [''autodev'' \<mapsto> 5] [''vin'', ''source''] Map.empty
       [''vin'' \<mapsto> SStr ''1FAKE000000000001'', ''source'' \<mapsto> SStr '''']
     = (False, Map.empty)"
  using empty_string_identity_is_absent
      [of "[(''vin'', PStr ''''), (''price'', PInt 9000)]" sample_helpers
          "[''vin'', ''source'', ''price'']" "''2024-01-01T00:00:00''"]
    empty_string_identity_is_absent
      [of "[(''vehicle'', PDict [(''vin'', PStr ''''), (''year'', PInt 2020)])]"
          sample_helpers "[''vin'', ''source'', ''price'']" "''2024-01-01T00:00:00''"
          "[(''vin'', PStr ''''), (''year'', PInt 2020)]"]
    empty_string_identity_is_absent
      [of "[]" sample_helpers "[''vin'', ''source'']" "''''" "[]"
          "[''vin'' \<mapsto> SStr ''1FAKE000000000001'', ''source'' \<mapsto> SStr '''']"
          "[''autodev'' \<mapsto> 5]" Map.empty]
  by (simp add: dict_get_def mapping_or_falsy_def get_or_def)

text \<open>
  Claim C10 as stated has both normalisers return None for every raw listing whose VIN is
  the empty string. With a \<^verbatim>\<open>retailListing\<close> that is a non-empty list,
  \<^verbatim>\<open>normalize_autodev_listing\<close> raises instead.
\<close>

theorem empty_vin_malformed_retail_counterexample:
  "dict_get [(''vin'', PStr ''''), (''model'', PStr ''Civic'')] ''vin'' = PStr ''''
   \<and> normalize_autodev_listing sample_helpers [''vin'', ''source'', ''price'']
       [(''vehicle'', PDict [(''vin'', PStr ''''), (''model'', PStr ''Civic'')]),
        (''retailListing'', PList [PStr ''sold''])] ''2024-01-01T00:00:00''
     = Inl AttributeError"
  by (simp add: eval_defs)

lemma dict_update_unset:
  assumes "\<And>k. k \<notin> S \<Longrightarrow> record_get r k = PNone"
    and "\<forall>(k, v) \<in> set kvs. k \<in> S \<or> v = PNone"
    and "k \<notin> S"
  shows "record_get (dict_update r kvs) k = PNone"
proof (cases "map_of (rev kvs) k")
  case None
  then show ?thesis
    using assms(1) [OF assms(3)] by (simp add: dict_update_lookup record_get_def)
next
  case (Some v)
  then have "(k, v) \<in> set kvs"
    using map_of_SomeD by fastforce
  with assms(2,3) have "v = PNone"
    by auto
  with Some show ?thesis
    by (simp add: dict_update_lookup record_get_def)
qed

lemma empty_record_unset:
  "record_get (empty_record cols) k = PNone"
  by (simp add: record_get_def empty_record_lookup)

lemma marketcheck_vin_only:
  assumes "truthy vin" and "to_int H PNone = None" and "to_float H PNone = None"
    and "to_bool H PNone = None"
  shows "\<exists>r. normalize_marketcheck_listing H cols [(''vin'', vin)] fetched_at = Inr (Some r)
     \<and> (\<forall>k. k \<notin> {''vin'', ''source'', ''data_source'', ''data_fetched_at'', ''raw_json''}
            \<longrightarrow> record_get r k = PNone)"
proof -
  let ?S = "{''vin'', ''source'', ''data_source'', ''data_fetched_at'', ''raw_json''}"
  let ?entries = "marketcheck_fields H [(''vin'', vin)] (PDict []) [] (PDict []) (PDict [])
       (PDict []) [] PNone PNone vin fetched_at"
  let ?r1 = "dict_update (empty_record cols) ?entries"
  let ?r2 = "dict_update ?r1 (marketcheck_build_fields H [])"
  have run: "normalize_marketcheck_listing H cols [(''vin'', vin)] fetched_at
               = Inr (Some (marketcheck_backfill ?r2))"
    using assms
    by (simp add: normalize_marketcheck_listing_def Let_def py_bind_def as_dict_def py_or_def
        dict_get_def int_value_def)
  have entries: "\<forall>(k, v) \<in> set ?entries. k \<in> ?S \<or> v = PNone"
    using assms(2-4)
    by (simp add: marketcheck_fields_def dict_get_def int_value_def float_value_def
        bool_value_def marketcheck_is_used_def py_or_def)
  have build: "\<forall>(k, v) \<in> set (marketcheck_build_fields H []). k \<in> ?S \<or> v = PNone"
    using assms(2)
    by (simp add: marketcheck_build_fields_def dict_get_def int_value_def)
  have r1: "record_get ?r1 k = PNone" if "k \<notin> ?S" for k
    using empty_record_unset entries that by (rule dict_update_unset)
  have r2: "record_get ?r2 k = PNone" if "k \<notin> ?S" for k
    using r1 build that by (rule dict_update_unset)
  have "record_get (marketcheck_backfill ?r2) k = PNone" if "k \<notin> ?S" for k
  proof -
    have "record_get (marketcheck_backfill ?r2) k = record_get ?r2 k"
      by (rule marketcheck_backfill_unset) (simp_all add: r2)
    with that show ?thesis
      by (simp add: r2)
  qed
  with run show ?thesis
    by blast
qed

lemma autodev_vin_only:
  assumes "truthy vin" and "to_int H PNone = None" and "to_float H PNone = None"
    and "to_bool H PNone = None"
  shows "\<exists>r. normalize_autodev_listing H cols [(''vehicle'', PDict [(''vin'', vin)])] fetched_at
         = Inr (Some r)
     \<and> (\<forall>k. k \<notin> {''vin'', ''source'', ''data_source'', ''data_fetched_at'', ''raw_json'',
                  ''build_json''}
            \<longrightarrow> record_get r k = PNone)
     \<and> record_get r ''build_json'' = PStr (json_dumps H True (PDict [(''vin'', vin)]))"
proof -
  let ?S = "{''vin'', ''source'', ''data_source'', ''data_fetched_at'', ''raw_json'',
             ''build_json''}"
  let ?listing = "[(''vehicle'', PDict [(''vin'', vin)])]"
  obtain entries where
    fields: "autodev_fields H ?listing [(''vin'', vin)] [] (PDict []) (PList []) (PList []) vin
               fetched_at = Inr entries"
    and entries: "\<forall>(k, v) \<in> set entries. k \<in> ?S \<or> v = PNone"
    and json: "map_of entries ''build_json'' = Some (PStr (json_dumps H True (PDict [(''vin'', vin)])))"
    using assms(2-4)
    by (simp add: autodev_fields_def py_bind_def or_else_def attr_get_def as_dict_def
        dict_get_def py_or_def int_value_def float_value_def bool_value_def)
  let ?r1 = "dict_update (empty_record cols) entries"
  have run: "normalize_autodev_listing H cols ?listing fetched_at
               = Inr (Some (autodev_backfill ?r1))"
    using assms(1) fields
    by (simp add: normalize_autodev_listing_def Let_def py_bind_def as_dict_def py_or_def
        dict_get_def)
  have r1: "record_get ?r1 k = PNone" if "k \<notin> ?S" for k
    using empty_record_unset entries that by (rule dict_update_unset)
  have same: "record_get (autodev_backfill ?r1) k = record_get ?r1 k" for k
    by (rule autodev_backfill_unset) (simp_all add: r1)
  have "?r1 ''build_json'' = Some (PStr (json_dumps H True (PDict [(''vin'', vin)])))"
    using json by (simp add: dict_update_distinct_lookup [OF autodev_fields_distinct [OF fields]])
  then have build_json: "record_get (autodev_backfill ?r1) ''build_json''
               = PStr (json_dumps H True (PDict [(''vin'', vin)]))"
    by (simp add: record_get_def autodev_backfill_keeps)
  have unset: "\<forall>k. k \<notin> ?S \<longrightarrow> record_get (autodev_backfill ?r1) k = PNone"
    using r1 by (simp only: same) blast
  from run unset build_json show ?thesis
    by (intro exI [of _ "autodev_backfill ?r1"] conjI)
qed

text \<open>
  Claim C6, as amended. For a raw listing that holds a (non-empty) VIN and nothing else,
  with helpers that return nothing on None, each normaliser returns a record and does not
  raise. In the record of \<^verbatim>\<open>normalize_marketcheck_listing\<close> every column other than \<^verbatim>\<open>vin\<close>,
  \<^verbatim>\<open>source\<close>, \<^verbatim>\<open>data_source\<close>, \<^verbatim>\<open>data_fetched_at\<close> and \<^verbatim>\<open>raw_json\<close> is unset. In the record of
  \<^verbatim>\<open>normalize_autodev_listing\<close> every column other than those five and \<^verbatim>\<open>build_json\<close> is
  unset, and \<^verbatim>\<open>build_json\<close> is the serialised vehicle sub-object, the one that holds the
  VIN.
\<close>

theorem vin_only_listing_record:
  "truthy vin \<and> to_int H PNone = None \<and> to_float H PNone = None \<and> to_bool H PNone = None
   \<longrightarrow>
     (\<exists>record.
        normalize_marketcheck_listing H UNIFIED_COLUMNS [(''vin'', vin)] fetched_at
          = Inr (Some record)
        \<and> (\<forall>k. k \<notin> {''vin'', ''source'', ''data_source'', ''data_fetched_at'', ''raw_json''}
               \<longrightarrow> record_get record k = PNone))
   \<and> (\<exists>record.
        normalize_autodev_listing H UNIFIED_COLUMNS [(''vehicle'', PDict [(''vin'', vin)])]
            fetched_at
          = Inr (Some record)
        \<and> (\<forall>k. k \<notin> {''vin'', ''source'', ''data_source'', ''data_fetched_at'', ''raw_json'',
                     ''build_json''}
               \<longrightarrow> record_get record k = PNone)
        \<and> record_get record ''build_json'' = PStr (json_dumps H True (PDict [(''vin'', vin)])))"
  using marketcheck_vin_only [of vin H UNIFIED_COLUMNS fetched_at]
    autodev_vin_only [of vin H UNIFIED_COLUMNS fetched_at]
  by blast

theorem vin_only_listing_record_witness:
  "(\<exists>r.
      normalize_marketcheck_listing sample_helpers [''vin'', ''source'', ''price'', ''build_json'']
          [(''vin'', PStr ''1FAKE000000000001'')] ''2024-01-01T00:00:00''
        = Inr (Some r)
      \<and> record_get r ''price'' = PNone \<and> record_get r ''build_json'' = PNone)
   \<and> (\<exists>r.
      normalize_autodev_listing sample_helpers [''vin'', ''source'', ''price'', ''build_json'']
          [(''vehicle'', PDict [(''vin'', PStr ''1FAKE000000000001'')])] ''2024-01-01T00:00:00''
        = Inr (Some r)
      \<and> record_get r ''price'' = PNone \<and> record_get r ''build_json'' = PStr ''{}'')"
proof -
  let ?cols = "[''vin'', ''source'', ''price'', ''build_json'']"
  let ?vin = "PStr ''1FAKE000000000001''"
  let ?t = "''2024-01-01T00:00:00''"
  have h: "truthy ?vin \<and> to_int sample_helpers PNone = None
      \<and> to_float sample_helpers PNone = None \<and> to_bool sample_helpers PNone = None"
    by (simp add: sample_helpers_def)
  note both = vin_only_listing_record [of ?vin sample_helpers ?cols ?t, THEN mp, OF h]
  from both [THEN conjunct1] obtain rm where
    rm: "normalize_marketcheck_listing sample_helpers ?cols [(''vin'', ?vin)] ?t = Inr (Some rm)
       \<and> (\<forall>k. k \<notin> {''vin'', ''source'', ''data_source'', ''data_fetched_at'', ''raw_json''}
               \<longrightarrow> record_get rm k = PNone)" ..
  from both [THEN conjunct2] obtain ra where
    ra: "normalize_autodev_listing sample_helpers ?cols [(''vehicle'', PDict [(''vin'', ?vin)])] ?t
          = Inr (Some ra)
       \<and> (\<forall>k. k \<notin> {''vin'', ''source'', ''data_source'', ''data_fetched_at'', ''raw_json'',
                     ''build_json''}
               \<longrightarrow> record_get ra k = PNone)
       \<and> record_get ra ''build_json''
           = PStr (json_dumps sample_helpers True (PDict [(''vin'', ?vin)]))" ..
  have m1: "record_get rm ''price'' = PNone"
    using rm [THEN conjunct2, THEN spec, of "''price''"] by simp
  have m2: "record_get rm ''build_json'' = PNone"
    using rm [THEN conjunct2, THEN spec, of "''build_json''"] by simp
  have a1: "record_get ra ''price'' = PNone"
    using ra [THEN conjunct2, THEN conjunct1, THEN spec, of "''price''"] by simp
  have a2: "record_get ra ''build_json'' = PStr ''{}''"
    using ra [THEN conjunct2, THEN conjunct2] by (simp add: sample_helpers_def)
  have "\<exists>r. normalize_marketcheck_listing sample_helpers ?cols [(''vin'', ?vin)] ?t = Inr (Some r)
      \<and> record_get r ''price'' = PNone \<and> record_get r ''build_json'' = PNone"
    using rm [THEN conjunct1] m1 m2 by (intro exI [of _ rm] conjI)
  moreover have "\<exists>r. normalize_autodev_listing sample_helpers ?cols
          [(''vehicle'', PDict [(''vin'', ?vin)])] ?t = Inr (Some r)
      \<and> record_get r ''price'' = PNone \<and> record_get r ''build_json'' = PStr ''{}''"
    using ra [THEN conjunct1] a1 a2 by (intro exI [of _ ra] conjI)
  ultimately show ?thesis
    by (rule conjI)
qed

text \<open>
  Claim C6 as stated leaves only \<^verbatim>\<open>vin\<close>, \<^verbatim>\<open>source\<close>, \<^verbatim>\<open>data_source\<close>, \<^verbatim>\<open>data_fetched_at\<close> and
  \<^verbatim>\<open>raw_json\<close> populated. For Auto.dev the VIN lives in the vehicle sub-object, which is
  therefore not empty, and \<^verbatim>\<open>build_json\<close> is \<^verbatim>\<open>json.dumps(vehicle)\<close>.
\<close>

theorem vin_only_autodev_build_json_counterexample:
  "column_of
     (normalize_autodev_listing sample_helpers [''vin'', ''source'', ''build_json'']
        [(''vehicle'', PDict [(''vin'', PStr ''1FAKE000000000001'')])] ''2024-01-01T00:00:00'')
     ''build_json''
   = Some (PStr (json_dumps sample_helpers True (PDict [(''vin'', PStr ''1FAKE000000000001'')])))
   \<and> ''build_json'' \<notin> {''vin'', ''source'', ''data_source'', ''data_fetched_at'', ''raw_json''}"
proof -
  have h1: "truthy (PStr ''1FAKE000000000001'')"
    by simp
  have h2: "to_int sample_helpers PNone = None"
    by (simp add: sample_helpers_def)
  have h3: "to_float sample_helpers PNone = None"
    by (simp add: sample_helpers_def)
  have h4: "to_bool sample_helpers PNone = None"
    by (simp add: sample_helpers_def)
  from autodev_vin_only [OF h1 h2 h3 h4, of "[''vin'', ''source'', ''build_json'']"
      "''2024-01-01T00:00:00''"]
  obtain r where
    r: "normalize_autodev_listing sample_helpers [''vin'', ''source'', ''build_json'']
          [(''vehicle'', PDict [(''vin'', PStr ''1FAKE000000000001'')])] ''2024-01-01T00:00:00''
         = Inr (Some r)
       \<and> (\<forall>k. k \<notin> {''vin'', ''source'', ''data_source'', ''data_fetched_at'', ''raw_json'',
                     ''build_json''}
               \<longrightarrow> record_get r k = PNone)
       \<and> record_get r ''build_json''
           = PStr (json_dumps sample_helpers True (PDict [(''vin'', PStr ''1FAKE000000000001'')]))" ..
  have "column_of
     (normalize_autodev_listing sample_helpers [''vin'', ''source'', ''build_json'']
        [(''vehicle'', PDict [(''vin'', PStr ''1FAKE000000000001'')])] ''2024-01-01T00:00:00'')
     ''build_json''
   = Some (PStr (json_dumps sample_helpers True (PDict [(''vin'', PStr ''1FAKE000000000001'')])))"
    by (simp only: r [THEN conjunct1] r [THEN conjunct2, THEN conjunct2] column_of_def
        sum.case option.case)
  moreover have "''build_json'' \<notin> {''vin'', ''source'', ''data_source'', ''data_fetched_at'',
      ''raw_json''}"
    by simp
  ultimately show ?thesis
    by (rule conjI)
qed

section \<open>The coercions\<close>

text \<open>
  Claim C7, on the model of the coercions written from the spec. For every input and
  whatever the numeric parse does, \<^verbatim>\<open>to_int\<close> and \<^verbatim>\<open>to_float\<close> return a value, never an
  exception: nothing on None, nothing where the parse fails, the parsed number otherwise.
  \<^verbatim>\<open>to_bool\<close> returns a value, never an exception: a boolean as it is, the recognised
  truth value of a textual or numeric input, and nothing otherwise.
\<close>

theorem coercions_never_raise:
  "(\<exists>r. to_int_model parse_int v = Inr r)
   \<and> to_int_model parse_int PNone = Inr None
   \<and> (\<forall>e. parse_int v = Inl e \<longrightarrow> to_int_model parse_int v = Inr None)
   \<and> (\<forall>n. v \<noteq> PNone \<and> parse_int v = Inr n \<longrightarrow> to_int_model parse_int v = Inr (Some n))
   \<and> (\<exists>r. to_float_model parse_float v = Inr r)
   \<and> to_float_model parse_float PNone = Inr None
   \<and> (\<forall>e. parse_float v = Inl e \<longrightarrow> to_float_model parse_float v = Inr None)
   \<and> (\<forall>x. v \<noteq> PNone \<and> parse_float v = Inr x \<longrightarrow> to_float_model parse_float v = Inr (Some x))
   \<and> (\<exists>r. to_bool_model recognise v = Inr r)
   \<and> (\<forall>b. to_bool_model recognise v = Inr (Some b)
          \<longrightarrow> v = PBool b \<or> (textual_or_numeric v \<and> recognise v = Some b))
   \<and> (textual_or_numeric v \<longrightarrow> to_bool_model recognise v = Inr (recognise v))
   \<and> (\<not> textual_or_numeric v \<and> (\<forall>b. v \<noteq> PBool b) \<longrightarrow> to_bool_model recognise v = Inr None)"
proof -
  have int_total: "\<exists>r. to_int_model parse_int v = Inr r"
    by (cases "parse_int v") (simp_all add: to_int_model_def)
  have int_none: "to_int_model parse_int PNone = Inr None"
    by (simp add: to_int_model_def)
  have int_fail: "\<forall>e. parse_int v = Inl e \<longrightarrow> to_int_model parse_int v = Inr None"
    by (auto simp: to_int_model_def)
  have int_ok: "\<forall>n. v \<noteq> PNone \<and> parse_int v = Inr n
      \<longrightarrow> to_int_model parse_int v = Inr (Some n)"
    by (simp add: to_int_model_def)
  have float_total: "\<exists>r. to_float_model parse_float v = Inr r"
    by (cases "parse_float v") (simp_all add: to_float_model_def)
  have float_none: "to_float_model parse_float PNone = Inr None"
    by (simp add: to_float_model_def)
  have float_fail: "\<forall>e. parse_float v = Inl e \<longrightarrow> to_float_model parse_float v = Inr None"
    by (auto simp: to_float_model_def)
  have float_ok: "\<forall>x. v \<noteq> PNone \<and> parse_float v = Inr x
      \<longrightarrow> to_float_model parse_float v = Inr (Some x)"
    by (simp add: to_float_model_def)
  have bool_total: "\<exists>r. to_bool_model recognise v = Inr r"
    by (simp add: to_bool_model_def split: pyval.splits scalar.splits)
  have bool_some: "\<forall>b. to_bool_model recognise v = Inr (Some b)
          \<longrightarrow> v = PBool b \<or> (textual_or_numeric v \<and> recognise v = Some b)"
    by (auto simp: to_bool_model_def split: pyval.splits scalar.splits if_splits)
  have bool_text: "textual_or_numeric v \<longrightarrow> to_bool_model recognise v = Inr (recognise v)"
    by (auto simp: to_bool_model_def split: pyval.splits scalar.splits)
  have bool_other: "\<not> textual_or_numeric v \<and> (\<forall>b. v \<noteq> PBool b)
      \<longrightarrow> to_bool_model recognise v = Inr None"
    by (auto simp: to_bool_model_def split: pyval.splits scalar.splits)
  from int_total int_none int_fail int_ok float_total float_none float_fail float_ok
    bool_total bool_some bool_text bool_other
  show ?thesis
    by (intro conjI)
qed

theorem coercions_never_raise_witness:
  "to_int_model (\<lambda>v. case v of Scalar (SInt n) \<Rightarrow> Inr n | _ \<Rightarrow> Inl ValueError)
      (PStr ''12 miles'') = Inr None
   \<and> to_int_model (\<lambda>v. case v of Scalar (SInt n) \<Rightarrow> Inr n | _ \<Rightarrow> Inl ValueError)
      (PInt 2020) = Inr (Some 2020)
   \<and> to_float_model (\<lambda>v. case v of Scalar (SFloat x) \<Rightarrow> Inr x | _ \<Rightarrow> Inl TypeError)
      (PList []) = Inr None
   \<and> to_bool_model (\<lambda>v. if v = PStr ''yes'' then Some True
                          else if v = PStr ''no'' then Some False else None)
      (PStr ''yes'') = Inr (Some True)
   \<and> to_bool_model (\<lambda>v. if v = PStr ''yes'' then Some True
                          else if v = PStr ''no'' then Some False else None)
      (PDict []) = Inr None"
proof -
  let ?pi = "\<lambda>v. case v of Scalar (SInt n) \<Rightarrow> Inr n | _ \<Rightarrow> Inl ValueError"
  let ?pf = "\<lambda>v. case v of Scalar (SFloat x) \<Rightarrow> Inr x | _ \<Rightarrow> Inl TypeError"
  let ?rb = "\<lambda>v. if v = PStr ''yes'' then Some True
                 else if v = PStr ''no'' then Some False else None"
  note a = coercions_never_raise [of ?pi "PStr ''12 miles''" ?pf ?rb]
  note b = coercions_never_raise [of ?pi "PInt 2020" ?pf ?rb]
  note c = coercions_never_raise [of ?pi "PList []" ?pf ?rb]
  note d = coercions_never_raise [of ?pi "PStr ''yes''" ?pf ?rb]
  note e = coercions_never_raise [of ?pi "PDict []" ?pf ?rb]
  have 1: "to_int_model ?pi (PStr ''12 miles'') = Inr None"
    using a [THEN conjunct2, THEN conjunct2, THEN conjunct1, THEN spec, of ValueError]
    by simp
  have 2: "to_int_model ?pi (PInt 2020) = Inr (Some 2020)"
    using b [THEN conjunct2, THEN conjunct2, THEN conjunct2, THEN conjunct1, THEN spec, of 2020]
    by simp
  have 3: "to_float_model ?pf (PList []) = Inr None"
    using c [THEN conjunct2, THEN conjunct2, THEN conjunct2, THEN conjunct2, THEN conjunct2,
        THEN conjunct2, THEN conjunct1, THEN spec, of TypeError]
    by simp
  have 4: "to_bool_model ?rb (PStr ''yes'') = Inr (Some True)"
    using d [THEN conjunct2, THEN conjunct2, THEN conjunct2, THEN conjunct2, THEN conjunct2,
        THEN conjunct2, THEN conjunct2, THEN conjunct2, THEN conjunct2, THEN conjunct2,
        THEN conjunct1]
    by simp
  have 5: "to_bool_model ?rb (PDict []) = Inr None"
    using e [THEN conjunct2, THEN conjunct2, THEN conjunct2, THEN conjunct2, THEN conjunct2,
        THEN conjunct2, THEN conjunct2, THEN conjunct2, THEN conjunct2, THEN conjunct2,
        THEN conjunct2]
    by simp
  from 1 2 3 4 5 show ?thesis
    by (intro conjI)
qed

end
